theory Spec2Isabelle
  imports Complex_Main "HOL-Library.Code_Target_Nat"
begin

section \<open>Strings of the host language\<close>

text \<open>
  The extension is TypeScript; its strings are sequences of 16-bit code units. A string is
  modelled as the list of its code units, each a natural number, so that \<open>length\<close>,
  \<open>slice\<close> and the regular expressions count what the source counts. \<open>js ''abc''\<close> is the
  string of the ASCII text \<open>abc\<close>.
\<close>

type_synonym jsstring = "nat list"

abbreviation cu :: "char \<Rightarrow> nat" where
  "cu c \<equiv> of_char c"

abbreviation js :: "string \<Rightarrow> jsstring" where
  "js s \<equiv> map of_char s"

text \<open>
  White space as \<open>String.prototype.trim\<close> and the regular expression class \<open>\s\<close> see it:
  the WhiteSpace and LineTerminator code points of ECMAScript (TAB, LF, VT, FF, CR, SP, NBSP,
  U+1680, U+2000..U+200A, U+2028, U+2029, U+202F, U+205F, U+3000, U+FEFF).
\<close>

definition isSpace :: "nat \<Rightarrow> bool" where
  "isSpace c = (c = 9 \<or> c = 10 \<or> c = 11 \<or> c = 12 \<or> c = 13 \<or> c = 32 \<or> c = 160 \<or> c = 5760
     \<or> (8192 \<le> c \<and> c \<le> 8202) \<or> c = 8232 \<or> c = 8233 \<or> c = 8239 \<or> c = 8287
     \<or> c = 12288 \<or> c = 65279)"

definition isDigit :: "nat \<Rightarrow> bool" where
  "isDigit c = (48 \<le> c \<and> c \<le> 57)"

definition trim :: "jsstring \<Rightarrow> jsstring" where
  "trim s = rev (dropWhile isSpace (rev (dropWhile isSpace s)))"

definition startsWith :: "jsstring \<Rightarrow> jsstring \<Rightarrow> bool" where
  "startsWith p s = (take (length p) s = p)"

text \<open>
  Matching under the \<open>i\<close> flag compares canonicalised code units. Every letter of the
  patterns of this program is ASCII, and ECMAScript's Canonicalize never maps a code unit
  above 127 to one below 128, so a code unit matches an ASCII pattern letter exactly when
  folding its ASCII lower case to upper case gives the folded pattern letter.
\<close>

definition asciiUpper :: "nat \<Rightarrow> nat" where
  "asciiUpper c = (if 97 \<le> c \<and> c \<le> 122 then c - 32 else c)"

definition startsWithCI :: "jsstring \<Rightarrow> jsstring \<Rightarrow> bool" where
  "startsWithCI p s = (map asciiUpper (take (length p) s) = map asciiUpper p)"

text \<open>
  A regular expression without the sticky flag is tried at every start position from left
  to right, the end of the text included; \<open>firstMatch m s\<close> is the result of the matcher
  \<open>m\<close> at the leftmost position where it succeeds.
\<close>

fun firstMatch :: "(jsstring \<Rightarrow> 'a option) \<Rightarrow> jsstring \<Rightarrow> 'a option" where
  "firstMatch m [] = m []"
| "firstMatch m (c # cs) = (case m (c # cs) of Some r \<Rightarrow> Some r | None \<Rightarrow> firstMatch m cs)"

text \<open>\<open>s.split('\n')\<close>: the pieces between line feeds; never the empty list.\<close>

fun splitLines :: "jsstring \<Rightarrow> jsstring list" where
  "splitLines [] = [[]]"
| "splitLines (c # cs) =
     (if c = 10 then [] # splitLines cs
      else (case splitLines cs of [] \<Rightarrow> [[c]] | l # ls \<Rightarrow> (c # l) # ls))"

section \<open>Escaping for the review panel\<close>

text \<open>
  \<^verbatim>\<open>s.replace(/[&<>"']/g, (m) => ({ '&':'&amp;', '<':'&lt;', '>':'&gt;', '"':'&quot;', "'":'&#39;' }[m]!))\<close>
  The global replacement visits every code unit once; \<open>escapeChar\<close> is the callback,
  extended by the identity to the code units the class does not match.
\<close>

definition escapeChar :: "nat \<Rightarrow> jsstring" where
  "escapeChar c =
     (if c = cu CHR ''&'' then js ''&amp;''
      else if c = cu CHR ''<'' then js ''&lt;''
      else if c = cu CHR ''>'' then js ''&gt;''
      else if c = 34 then js ''&quot;''
      else if c = 39 then js ''&#39;''
      else [c])"

definition escapeHtml :: "jsstring \<Rightarrow> jsstring" where
  "escapeHtml s = concat (map escapeChar s)"

section \<open>File-path normalisation\<close>

text \<open>
  The anchored, non-global replacements of \<open>safeParseReview\<close> and \<open>toAbsolutePath\<close>.
  \<^verbatim>\<open>replace(/^a\//,'')\<close> removes one leading \<open>a/\<close>; \<^verbatim>\<open>replace(/^\.\/+/,'')\<close> removes a leading
  dot together with all the slashes that follow it (at least one); \<^verbatim>\<open>replace(/^\/+/,'')\<close>
  removes all leading slashes.
\<close>

definition stripPrefix :: "jsstring \<Rightarrow> jsstring \<Rightarrow> jsstring" where
  "stripPrefix p s = (if startsWith p s then drop (length p) s else s)"

definition stripDotSlashes :: "jsstring \<Rightarrow> jsstring" where
  "stripDotSlashes s = (if startsWith (js ''./'') s then dropWhile (\<lambda>c. c = cu CHR ''/'') (tl s) else s)"

definition stripSlashes :: "jsstring \<Rightarrow> jsstring" where
  "stripSlashes s = dropWhile (\<lambda>c. c = cu CHR ''/'') s"

text \<open>
  \<^verbatim>\<open>it.file.replace(/^a\//,'').replace(/^b\//,'').replace(/^\.\/+|^\/+/,'')\<close> (safeParseReview):
  the last expression is one replacement with two alternatives, the first tried first.
\<close>

definition normalizeFile :: "jsstring \<Rightarrow> jsstring" where
  "normalizeFile s =
     (let s1 = stripPrefix (js ''a/'') s;
          s2 = stripPrefix (js ''b/'') s1
      in if startsWith (js ''./'') s2 then stripDotSlashes s2 else stripSlashes s2)"

text \<open>
  \<^verbatim>\<open>p.replace(/^a\//, '').replace(/^b\//, '').replace(/^\.\/+/, '').replace(/^\/+/, '')\<close>
  (toAbsolutePath).
\<close>

definition cleanPath :: "jsstring \<Rightarrow> jsstring" where
  "cleanPath p = stripSlashes (stripDotSlashes (stripPrefix (js ''b/'') (stripPrefix (js ''a/'') p)))"

text \<open>A path carries a diff-style or relative prefix when it starts with \<open>a/\<close>, \<open>b/\<close>, \<open>./\<close> or \<open>/\<close>.\<close>

definition hasPathPrefix :: "jsstring \<Rightarrow> bool" where
  "hasPathPrefix s = (startsWith (js ''a/'') s \<or> startsWith (js ''b/'') s
     \<or> startsWith (js ''./'') s \<or> startsWith (js ''/'') s)"

section \<open>Values of the host language\<close>

text \<open>
  The TypeScript types are erased at run time: what \<open>JSON.parse\<close> and \<open>res.json()\<close> return
  are untyped values, and the \<open>ReviewIssue\<close> the code speaks of is whatever object the model
  or the proxy sent. Values are modelled as such. A number is a double; the model keeps the
  exact rational a decimal literal denotes (the rounding of literals to doubles is not
  modelled) besides \<open>NaN\<close> and the two infinities. The comparisons, \<open>Math.max\<close> and the
  subtraction of 1 that the program performs are exact on these values.
  An object is its list of own properties in creation order; an array carries its elements
  and, since the parser assigns named properties to whatever an issue is, its named
  properties.
\<close>

datatype jsnum = NaN | NegInf | Fin rat | PosInf

datatype jsval =
    Undefined
  | Null
  | Bool bool
  | Num jsnum
  | Str jsstring
  | Arr "jsval list" "(jsstring \<times> jsval) list"
  | Obj "(jsstring \<times> jsval) list"

text \<open>
  Errors are values. \<open>TypeError\<close> and \<open>SyntaxError\<close> are thrown by the language (their message
  texts belong to the engine and are not modelled), \<open>FetchError\<close> is a rejected \<open>fetch\<close>, and
  \<open>Error msg\<close> is \<^verbatim>\<open>new Error(msg)\<close> thrown by the program itself.
\<close>

datatype js_error = TypeError | SyntaxError | FetchError | Error jsstring

text \<open>\<open>ToBoolean\<close>, and \<open>a || b\<close>.\<close>

fun toBoolean :: "jsval \<Rightarrow> bool" where
  "toBoolean Undefined = False"
| "toBoolean Null = False"
| "toBoolean (Bool b) = b"
| "toBoolean (Num n) = (n \<noteq> NaN \<and> n \<noteq> Fin 0)"
| "toBoolean (Str s) = (s \<noteq> [])"
| "toBoolean (Arr es ps) = True"
| "toBoolean (Obj ps) = True"

definition jsOr :: "jsval \<Rightarrow> jsval \<Rightarrow> jsval" where
  "jsOr a b = (if toBoolean a then a else b)"

text \<open>\<open>n || d\<close> for a number \<open>n\<close>: zero and \<open>NaN\<close> are falsy.\<close>

definition numOr :: "jsnum \<Rightarrow> jsnum \<Rightarrow> jsnum" where
  "numOr n d = (if n = NaN \<or> n = Fin 0 then d else n)"

text \<open>The order of the numbers that are not \<open>NaN\<close>, and \<open>Math.max\<close> of two numbers.\<close>

fun numLe :: "jsnum \<Rightarrow> jsnum \<Rightarrow> bool" where
  "numLe NaN _ = False"
| "numLe _ NaN = False"
| "numLe NegInf _ = True"
| "numLe _ PosInf = True"
| "numLe (Fin a) (Fin b) = (a \<le> b)"
| "numLe (Fin a) NegInf = False"
| "numLe PosInf (Fin b) = False"
| "numLe PosInf NegInf = False"

definition mathMax :: "jsnum \<Rightarrow> jsnum \<Rightarrow> jsnum" where
  "mathMax a b = (if a = NaN \<or> b = NaN then NaN else if numLe a b then b else a)"

text \<open>\<open>x - 1\<close> on a number.\<close>

fun minusOne :: "jsnum \<Rightarrow> jsnum" where
  "minusOne (Fin r) = Fin (r - 1)"
| "minusOne n = n"

subsection \<open>Numbers and strings\<close>

text \<open>The value of a run of decimal digits, and the decimal digits of a natural number.\<close>

definition digitsValue :: "nat \<Rightarrow> jsstring \<Rightarrow> nat" where
  "digitsValue base ds = foldl (\<lambda>acc d. acc * base + d) 0 ds"

definition decimalValue :: "jsstring \<Rightarrow> nat" where
  "decimalValue ds = digitsValue 10 (map (\<lambda>c. c - 48) ds)"

fun digitsOf :: "nat \<Rightarrow> jsstring" where
  "digitsOf n = (if n < 10 then [48 + n] else digitsOf (n div 10) @ [48 + n mod 10])"

text \<open>\<open>m \<times> 10\<^sup>e\<close> for an integer exponent.\<close>

definition scale10 :: "rat \<Rightarrow> int \<Rightarrow> rat" where
  "scale10 m e = (if 0 \<le> e then m * 10 ^ nat e else m / 10 ^ nat (- e))"

text \<open>
  An unsigned decimal literal that fills the whole string: digits, an optional fraction, an
  optional exponent; at least one digit before or after the point (StrUnsignedDecimalLiteral
  of ECMAScript without \<open>Infinity\<close>).
\<close>

definition exponentPart :: "jsstring \<Rightarrow> int option" where
  "exponentPart r =
     (if r = [] then Some 0
      else if hd r = cu CHR ''e'' \<or> hd r = cu CHR ''E'' then
        (let r1 = tl r;
             neg = (r1 \<noteq> [] \<and> hd r1 = cu CHR ''-'');
             ds = (if r1 \<noteq> [] \<and> (hd r1 = cu CHR ''-'' \<or> hd r1 = cu CHR ''+'') then tl r1 else r1)
         in if ds \<noteq> [] \<and> list_all isDigit ds
            then Some (if neg then - int (decimalValue ds) else int (decimalValue ds))
            else None)
      else None)"

definition unsignedDecimal :: "jsstring \<Rightarrow> rat option" where
  "unsignedDecimal u =
     (let ip = takeWhile isDigit u;
          r1 = dropWhile isDigit u;
          dot = (r1 \<noteq> [] \<and> hd r1 = cu CHR ''.'');
          fp = (if dot then takeWhile isDigit (tl r1) else []);
          r2 = (if dot then dropWhile isDigit (tl r1) else r1)
      in if ip = [] \<and> fp = [] then None
         else (case exponentPart r2 of
                 None \<Rightarrow> None
               | Some e \<Rightarrow> Some (scale10 (of_nat (decimalValue (ip @ fp))) (e - int (length fp)))))"

text \<open>Hexadecimal, octal and binary integer literals (\<open>0x\<close>, \<open>0o\<close>, \<open>0b\<close>): the value of one digit.\<close>

definition digitIn :: "nat \<Rightarrow> nat \<Rightarrow> nat option" where
  "digitIn base c =
     (let v = (if 48 \<le> c \<and> c \<le> 57 then Some (c - 48)
               else if 97 \<le> c \<and> c \<le> 102 then Some (c - 87)
               else if 65 \<le> c \<and> c \<le> 70 then Some (c - 55)
               else None)
      in case v of None \<Rightarrow> None | Some d \<Rightarrow> if d < base then Some d else None)"

definition radixLiteral :: "nat \<Rightarrow> jsstring \<Rightarrow> jsnum" where
  "radixLiteral base ds =
     (if ds \<noteq> [] \<and> list_all (\<lambda>c. digitIn base c \<noteq> None) ds
      then Fin (of_nat (digitsValue base (map (\<lambda>c. the (digitIn base c)) ds)))
      else NaN)"

text \<open>
  \<open>StringToNumber\<close>: white space is trimmed; the empty string is 0; a radix literal carries
  no sign; a decimal literal may be signed and may be \<open>Infinity\<close>; anything else is \<open>NaN\<close>.
\<close>

definition stringToNumber :: "jsstring \<Rightarrow> jsnum" where
  "stringToNumber s =
     (let t = trim s in
      if t = [] then Fin 0
      else if startsWithCI (js ''0x'') t then radixLiteral 16 (drop 2 t)
      else if startsWithCI (js ''0o'') t then radixLiteral 8 (drop 2 t)
      else if startsWithCI (js ''0b'') t then radixLiteral 2 (drop 2 t)
      else
        (let neg = (hd t = cu CHR ''-'');
             u = (if hd t = cu CHR ''-'' \<or> hd t = cu CHR ''+'' then tl t else t)
         in if u = js ''Infinity'' then (if neg then NegInf else PosInf)
            else (case unsignedDecimal u of
                    None \<Rightarrow> NaN
                  | Some r \<Rightarrow> Fin (if neg then - r else r))))"

text \<open>
  \<open>Number::toString\<close> in radix 10. For a positive number with decimal digits \<open>ds\<close> (no trailing
  zero, \<open>k\<close> of them) and decimal exponent \<open>n\<close> (the value is \<open>0.ds \<times> 10\<^sup>n\<close>) the four layouts
  of ECMAScript: digits and zeros, digits with a point, \<open>0.\<close> with zeros and digits, and the
  exponent form. Every finite number the program meets is a decimal fraction; \<open>fracDigits\<close>
  finds how many decimal places it has (the search is bounded by the denominator).
\<close>

fun fracDigits :: "nat \<Rightarrow> nat \<Rightarrow> int \<Rightarrow> nat" where
  "fracDigits 0 e q = e"
| "fracDigits (Suc fuel) e q = (if q dvd 10 ^ e then e else fracDigits fuel (Suc e) q)"

fun stripZeros :: "nat \<Rightarrow> nat \<Rightarrow> nat \<Rightarrow> nat \<times> nat" where
  "stripZeros 0 m z = (m, z)"
| "stripZeros (Suc fuel) m z = (if m \<noteq> 0 \<and> m mod 10 = 0 then stripZeros fuel (m div 10) (Suc z) else (m, z))"

definition layoutNumber :: "jsstring \<Rightarrow> int \<Rightarrow> jsstring" where
  "layoutNumber ds n =
     (let k = int (length ds) in
      if k \<le> n \<and> n \<le> 21 then ds @ replicate (nat (n - k)) (cu CHR ''0'')
      else if 0 < n \<and> n \<le> 21 then take (nat n) ds @ js ''.'' @ drop (nat n) ds
      else if - 6 < n \<and> n \<le> 0 then js ''0.'' @ replicate (nat (- n)) (cu CHR ''0'') @ ds
      else
        (let e = n - 1;
             es = (if e < 0 then js ''-'' else js ''+'') @ digitsOf (nat \<bar>e\<bar>)
         in if k = 1 then ds @ js ''e'' @ es
            else [hd ds] @ js ''.'' @ tl ds @ js ''e'' @ es))"

definition positiveToString :: "rat \<Rightarrow> jsstring" where
  "positiveToString x =
     (let q = snd (quotient_of x);
          e = fracDigits (nat q) 0 q;
          m = nat \<lfloor>x * 10 ^ e\<rfloor>;
          (s, z) = stripZeros m m 0;
          ds = digitsOf s
      in layoutNumber ds (int (length ds) + int z - int e))"

fun numberToString :: "jsnum \<Rightarrow> jsstring" where
  "numberToString NaN = js ''NaN''"
| "numberToString PosInf = js ''Infinity''"
| "numberToString NegInf = js ''-Infinity''"
| "numberToString (Fin r) =
     (if r = 0 then js ''0''
      else if r < 0 then js ''-'' @ positiveToString (- r)
      else positiveToString r)"

text \<open>\<open>xs.join(sep)\<close> on strings.\<close>

fun joinWith :: "jsstring \<Rightarrow> jsstring list \<Rightarrow> jsstring" where
  "joinWith sep [] = []"
| "joinWith sep [x] = x"
| "joinWith sep (x # y # ys) = x @ sep @ joinWith sep (y # ys)"

text \<open>
  The conversion of an object to a primitive calls its methods \<open>valueOf\<close> and \<open>toString\<close>.
  Those of the built-in prototypes are found unless an own property hides them, and an own
  property of a value that came out of \<open>JSON.parse\<close> is never a function. The inherited
  \<open>valueOf\<close> returns the object itself, so the conversion rests on \<open>toString\<close>: with an own
  property of that name it throws a \<open>TypeError\<close>. The \<open>toString\<close> of an array calls \<open>join\<close>,
  which converts the elements in turn; when an own property hides \<open>join\<close> it answers
  \<open>[object Array]\<close> instead. \<open>convertible v\<close> says that the conversion of \<open>v\<close> does not throw.
\<close>

definition hasOwn :: "(jsstring \<times> jsval) list \<Rightarrow> jsstring \<Rightarrow> bool" where
  "hasOwn ps k = (k \<in> set (map fst ps))"

fun convertible :: "jsval \<Rightarrow> bool" where
  "convertible (Obj ps) = (\<not> hasOwn ps (js ''toString''))"
| "convertible (Arr es ps) =
     (\<not> hasOwn ps (js ''toString'') \<and> (hasOwn ps (js ''join'') \<or> list_all convertible es))"
| "convertible v = True"

text \<open>
  \<open>ToString\<close> (\<open>String(v)\<close>, template literals, the argument of \<open>RegExp.prototype.test\<close>) of a
  convertible value. An array is the join of its elements by commas, \<open>null\<close> and \<open>undefined\<close>
  elements being empty; an object is \<open>[object Object]\<close>.
\<close>

fun toString :: "jsval \<Rightarrow> jsstring" where
  "toString Undefined = js ''undefined''"
| "toString Null = js ''null''"
| "toString (Bool b) = (if b then js ''true'' else js ''false'')"
| "toString (Num n) = numberToString n"
| "toString (Str s) = s"
| "toString (Arr es ps) =
     (if hasOwn ps (js ''join'') then js ''[object Array]''
      else joinWith (js '','')
             (map (\<lambda>e. if e = Undefined \<or> e = Null then [] else toString e) es))"
| "toString (Obj ps) = js ''[object Object]''"

text \<open>
  \<open>ToNumber\<close> (\<open>Number(v)\<close>, the operands of \<open>-\<close> and of \<open>Math.max\<close>) of a convertible value:
  an object goes through its string.
\<close>

fun toNumber :: "jsval \<Rightarrow> jsnum" where
  "toNumber Undefined = NaN"
| "toNumber Null = Fin 0"
| "toNumber (Bool b) = (if b then Fin 1 else Fin 0)"
| "toNumber (Num n) = n"
| "toNumber (Str s) = stringToNumber s"
| "toNumber (Arr es ps) = stringToNumber (toString (Arr es ps))"
| "toNumber (Obj ps) = stringToNumber (toString (Obj ps))"

text \<open>The two conversions as the program performs them: they throw where the value is not
  convertible.\<close>

definition toStringE :: "jsval \<Rightarrow> js_error + jsstring" where
  "toStringE v = (if convertible v then Inr (toString v) else Inl TypeError)"

definition toNumberE :: "jsval \<Rightarrow> js_error + jsnum" where
  "toNumberE v = (if convertible v then Inr (toNumber v) else Inl TypeError)"

text \<open>
  The receiver of a method of strings (\<open>replace\<close>, \<open>trim\<close>): a string. On any other value the
  call throws, since the value has no such method (an own property of that name would not
  be a function).
\<close>

definition stringReceiver :: "jsval \<Rightarrow> js_error + jsstring" where
  "stringReceiver v = (case v of Str s \<Rightarrow> Inr s | _ \<Rightarrow> Inl TypeError)"

subsection \<open>Reading and writing properties\<close>

text \<open>
  Reading and writing a named property. The names the program uses (\<open>issues\<close>, \<open>summary\<close>,
  \<open>startLine\<close>, \<open>endLine\<close>, \<open>severity\<close>, \<open>file\<close>, \<open>message\<close>, \<open>suggestion\<close>, \<open>models\<close>, \<open>name\<close>,
  \<open>response\<close>) are neither indices nor properties of a built-in prototype, so a read finds an
  own property or \<open>undefined\<close>. Reading a property of \<open>null\<close> or \<open>undefined\<close> throws. The source
  is an ES module, hence strict code: assigning a property to a primitive throws too.
\<close>

fun lookupProp :: "(jsstring \<times> jsval) list \<Rightarrow> jsstring \<Rightarrow> jsval" where
  "lookupProp [] k = Undefined"
| "lookupProp ((k', v) # ps) k = (if k' = k then v else lookupProp ps k)"

fun updateProp :: "(jsstring \<times> jsval) list \<Rightarrow> jsstring \<Rightarrow> jsval \<Rightarrow> (jsstring \<times> jsval) list" where
  "updateProp [] k v = [(k, v)]"
| "updateProp ((k', v') # ps) k v = (if k' = k then (k, v) # ps else (k', v') # updateProp ps k v)"

fun getProp :: "jsval \<Rightarrow> jsstring \<Rightarrow> js_error + jsval" where
  "getProp Undefined k = Inl TypeError"
| "getProp Null k = Inl TypeError"
| "getProp (Obj ps) k = Inr (lookupProp ps k)"
| "getProp (Arr es ps) k = Inr (lookupProp ps k)"
| "getProp v k = Inr Undefined"

fun setProp :: "jsval \<Rightarrow> jsstring \<Rightarrow> jsval \<Rightarrow> js_error + jsval" where
  "setProp (Obj ps) k v = Inr (Obj (updateProp ps k v))"
| "setProp (Arr es ps) k v = Inr (Arr es (updateProp ps k v))"
| "setProp x k v = Inl TypeError"

section \<open>JSON.parse\<close>

text \<open>
  \<open>JSON.parse\<close> is part of the platform; the parser below follows the JSON grammar of
  ECMA-404 as ECMAScript reads it. It runs in two passes, each one step per input element:
  a scanner from code units to tokens and a stack automaton from tokens to a value.
  A result \<open>None\<close> is the \<open>SyntaxError\<close> that \<open>JSON.parse\<close> throws.
\<close>

datatype token = TLBrace | TRBrace | TLBrack | TRBrack | TColon | TComma | TScalar jsval

text \<open>
  A JSON number: an optional minus, an integer part without a superfluous leading zero, an
  optional fraction with at least one digit, an optional exponent.
\<close>

definition jsonNumber :: "jsstring \<Rightarrow> jsval option" where
  "jsonNumber s =
     (let neg = (s \<noteq> [] \<and> hd s = cu CHR ''-'');
          u = (if neg then tl s else s);
          ip = takeWhile isDigit u;
          r1 = dropWhile isDigit u
      in if ip = [] \<or> (1 < length ip \<and> hd ip = cu CHR ''0'')
            \<or> (r1 \<noteq> [] \<and> hd r1 = cu CHR ''.'' \<and> takeWhile isDigit (tl r1) = [])
         then None
         else (case unsignedDecimal u of
                 None \<Rightarrow> None
               | Some r \<Rightarrow> Some (Num (Fin (if neg then - r else r)))))"

definition jsonLiteral :: "jsstring \<Rightarrow> jsval option" where
  "jsonLiteral s =
     (if s = js ''true'' then Some (Bool True)
      else if s = js ''false'' then Some (Bool False)
      else if s = js ''null'' then Some Null
      else None)"

text \<open>
  The scanner is between tokens (\<open>LStart\<close>), inside a string (the decoded code units so far,
  reversed), after a backslash, inside a \<open>\u\<close> escape (the hexadecimal digits read so far),
  inside a number or inside a literal name (the code units so far, reversed). A number is
  the longest run of the code units a number may contain and a literal the longest run of
  lower-case letters: JSON requires a delimiter after either.
\<close>

datatype lexstate =
    LStart
  | LString jsstring
  | LEscape jsstring
  | LUnicode jsstring "nat list"
  | LNumber jsstring
  | LLiteral jsstring

definition isJsonSpace :: "nat \<Rightarrow> bool" where
  "isJsonSpace c = (c = 32 \<or> c = 9 \<or> c = 10 \<or> c = 13)"

definition isNumberChar :: "nat \<Rightarrow> bool" where
  "isNumberChar c = (isDigit c \<or> c = cu CHR ''-'' \<or> c = cu CHR ''+'' \<or> c = cu CHR ''.''
     \<or> c = cu CHR ''e'' \<or> c = cu CHR ''E'')"

definition isLowerLetter :: "nat \<Rightarrow> bool" where
  "isLowerLetter c = (97 \<le> c \<and> c \<le> 122)"

text \<open>One code unit read between tokens: the next state and the tokens it completes.\<close>

definition lexStart :: "nat \<Rightarrow> (lexstate \<times> token list) option" where
  "lexStart c =
     (if isJsonSpace c then Some (LStart, [])
      else if c = cu CHR ''{'' then Some (LStart, [TLBrace])
      else if c = cu CHR ''}'' then Some (LStart, [TRBrace])
      else if c = cu CHR ''['' then Some (LStart, [TLBrack])
      else if c = cu CHR '']'' then Some (LStart, [TRBrack])
      else if c = cu CHR '':'' then Some (LStart, [TColon])
      else if c = cu CHR '','' then Some (LStart, [TComma])
      else if c = 34 then Some (LString [], [])
      else if c = cu CHR ''-'' \<or> isDigit c then Some (LNumber [c], [])
      else if isLowerLetter c then Some (LLiteral [c], [])
      else None)"

text \<open>The escapes of a JSON string (34 is the double quote, 92 the backslash).\<close>

definition escapedChar :: "nat \<Rightarrow> nat option" where
  "escapedChar c =
     (if c = 34 then Some 34
      else if c = 92 then Some 92
      else if c = cu CHR ''/'' then Some (cu CHR ''/'')
      else if c = cu CHR ''b'' then Some 8
      else if c = cu CHR ''f'' then Some 12
      else if c = cu CHR ''n'' then Some 10
      else if c = cu CHR ''r'' then Some 13
      else if c = cu CHR ''t'' then Some 9
      else None)"

text \<open>A scalar ends before the code unit \<open>c\<close>, which is then read between tokens.\<close>

definition lexAfter :: "jsval option \<Rightarrow> nat \<Rightarrow> (lexstate \<times> token list) option" where
  "lexAfter scalar c =
     (case scalar of
        None \<Rightarrow> None
      | Some v \<Rightarrow> (case lexStart c of
                     None \<Rightarrow> None
                   | Some (st, ts) \<Rightarrow> Some (st, TScalar v # ts)))"

fun lexStep :: "lexstate \<Rightarrow> nat \<Rightarrow> (lexstate \<times> token list) option" where
  "lexStep LStart c = lexStart c"
| "lexStep (LString acc) c =
     (if c = 34 then Some (LStart, [TScalar (Str (rev acc))])
      else if c = 92 then Some (LEscape acc, [])
      else if c < 32 then None
      else Some (LString (c # acc), []))"
| "lexStep (LEscape acc) c =
     (if c = cu CHR ''u'' then Some (LUnicode acc [], [])
      else (case escapedChar c of
              None \<Rightarrow> None
            | Some d \<Rightarrow> Some (LString (d # acc), [])))"
| "lexStep (LUnicode acc hs) c =
     (case digitIn 16 c of
        None \<Rightarrow> None
      | Some h \<Rightarrow> if length hs = 3 then Some (LString (digitsValue 16 (hs @ [h]) # acc), [])
                  else Some (LUnicode acc (hs @ [h]), []))"
| "lexStep (LNumber acc) c =
     (if isNumberChar c then Some (LNumber (c # acc), [])
      else lexAfter (jsonNumber (rev acc)) c)"
| "lexStep (LLiteral acc) c =
     (if isLowerLetter c then Some (LLiteral (c # acc), [])
      else lexAfter (jsonLiteral (rev acc)) c)"

text \<open>The end of the input: a pending scalar is completed, an open string is an error.\<close>

fun lexEnd :: "lexstate \<Rightarrow> token list option" where
  "lexEnd LStart = Some []"
| "lexEnd (LNumber acc) = map_option (\<lambda>v. [TScalar v]) (jsonNumber (rev acc))"
| "lexEnd (LLiteral acc) = map_option (\<lambda>v. [TScalar v]) (jsonLiteral (rev acc))"
| "lexEnd st = None"

fun lexFrom :: "lexstate \<Rightarrow> jsstring \<Rightarrow> token list option" where
  "lexFrom st [] = lexEnd st"
| "lexFrom st (c # cs) =
     (case lexStep st c of
        None \<Rightarrow> None
      | Some (st', ts) \<Rightarrow> map_option (\<lambda>rest. ts @ rest) (lexFrom st' cs))"

text \<open>
  The automaton. A frame is an array under construction (its elements, reversed) or an
  object under construction (its properties and the key that awaits its value). The mode
  says what the grammar allows next: a value; the first element or key of a container just
  opened, or its closing bracket; a key; a colon; a comma or a closing bracket; nothing
  (the value is complete). A repeated key keeps the place of its first occurrence and the
  value of its last.
\<close>

datatype frame = FArr "jsval list" | FObj "(jsstring \<times> jsval) list" jsstring

datatype mode = MValue | MFirst | MKey | MColon | MAfter | MDone jsval

type_synonym pstate = "frame list \<times> mode"

fun pushValue :: "jsval \<Rightarrow> frame list \<Rightarrow> pstate" where
  "pushValue v [] = ([], MDone v)"
| "pushValue v (FArr es # fs) = (FArr (v # es) # fs, MAfter)"
| "pushValue v (FObj ps k # fs) = (FObj (updateProp ps k v) [] # fs, MAfter)"

fun closeFrame :: "token \<Rightarrow> frame list \<Rightarrow> pstate option" where
  "closeFrame TRBrack (FArr es # fs) = Some (pushValue (Arr (rev es) []) fs)"
| "closeFrame TRBrace (FObj ps k # fs) = Some (pushValue (Obj ps) fs)"
| "closeFrame t fs = None"

fun startValue :: "token \<Rightarrow> frame list \<Rightarrow> pstate option" where
  "startValue (TScalar v) fs = Some (pushValue v fs)"
| "startValue TLBrack fs = Some (FArr [] # fs, MFirst)"
| "startValue TLBrace fs = Some (FObj [] [] # fs, MFirst)"
| "startValue t fs = None"

fun startKey :: "token \<Rightarrow> frame list \<Rightarrow> pstate option" where
  "startKey (TScalar (Str k)) (FObj ps k' # fs) = Some (FObj ps k # fs, MColon)"
| "startKey t fs = None"

fun parseStep :: "pstate \<Rightarrow> token \<Rightarrow> pstate option" where
  "parseStep (fs, MValue) t = startValue t fs"
| "parseStep (FArr es # fs, MFirst) t =
     (if t = TRBrack then closeFrame t (FArr es # fs) else startValue t (FArr es # fs))"
| "parseStep (FObj ps k # fs, MFirst) t =
     (if t = TRBrace then closeFrame t (FObj ps k # fs) else startKey t (FObj ps k # fs))"
| "parseStep ([], MFirst) t = None"
| "parseStep (fs, MKey) t = startKey t fs"
| "parseStep (fs, MColon) t = (if t = TColon then Some (fs, MValue) else None)"
| "parseStep (FArr es # fs, MAfter) t =
     (if t = TComma then Some (FArr es # fs, MValue) else closeFrame t (FArr es # fs))"
| "parseStep (FObj ps k # fs, MAfter) t =
     (if t = TComma then Some (FObj ps k # fs, MKey) else closeFrame t (FObj ps k # fs))"
| "parseStep ([], MAfter) t = None"
| "parseStep (fs, MDone v) t = None"

fun parseFrom :: "pstate \<Rightarrow> token list \<Rightarrow> jsval option" where
  "parseFrom (fs, MDone v) [] = (if fs = [] then Some v else None)"
| "parseFrom st [] = None"
| "parseFrom st (t # ts) = (case parseStep st t of None \<Rightarrow> None | Some st' \<Rightarrow> parseFrom st' ts)"

definition JSON_parse :: "jsstring \<Rightarrow> jsval option" where
  "JSON_parse s = (case lexFrom LStart s of None \<Rightarrow> None | Some ts \<Rightarrow> parseFrom ([], MValue) ts)"

section \<open>The response parser\<close>

text \<open>Sequencing of steps that may throw: the first error ends the computation.\<close>

definition bindE :: "'e + 'a \<Rightarrow> ('a \<Rightarrow> 'e + 'b) \<Rightarrow> 'e + 'b" where
  "bindE m f = (case m of Inl e \<Rightarrow> Inl e | Inr x \<Rightarrow> f x)"

fun mapE :: "('a \<Rightarrow> 'e + 'b) \<Rightarrow> 'a list \<Rightarrow> 'e + 'b list" where
  "mapE f [] = Inr []"
| "mapE f (x # xs) = bindE (f x) (\<lambda>y. bindE (mapE f xs) (\<lambda>ys. Inr (y # ys)))"

text \<open>
  \<open>ReviewResult\<close>. The field \<open>issues\<close> is typed \<open>ReviewIssue[]\<close> in the source, a type that
  nothing enforces at run time; it holds the value that was put there.
\<close>

record ReviewResult =
  summary :: jsstring
  issues :: jsval

text \<open>
  \<^verbatim>\<open>text.match(/```json\s*([\s\S]*?)```/i) || text.match(/```\s*([\s\S]*?)```/)\<close>
  At a start position, after the opening marker, \<open>\s*\<close> takes the whole run of white space
  (giving some back never helps: a back-tick is not white space) and the lazy group extends
  to the first closing marker; \<open>untilFence\<close> is the captured group.
\<close>

fun untilFence :: "jsstring \<Rightarrow> jsstring option" where
  "untilFence [] = None"
| "untilFence (c # cs) =
     (if startsWith (js ''```'') (c # cs) then Some [] else map_option (Cons c) (untilFence cs))"

definition fenceJsonAt :: "jsstring \<Rightarrow> jsstring option" where
  "fenceJsonAt s =
     (if startsWithCI (js ''```json'') s then untilFence (dropWhile isSpace (drop 7 s)) else None)"

definition fenceAt :: "jsstring \<Rightarrow> jsstring option" where
  "fenceAt s =
     (if startsWith (js ''```'') s then untilFence (dropWhile isSpace (drop 3 s)) else None)"

definition fenceMatch :: "jsstring \<Rightarrow> jsstring option" where
  "fenceMatch text =
     (case firstMatch fenceJsonAt text of Some c \<Rightarrow> Some c | None \<Rightarrow> firstMatch fenceAt text)"

text \<open>
  \<^verbatim>\<open>candidate.match(/\{[\s\S]*\}/)\<close>: greedy, so from an opening brace to the last closing
  brace after it.
\<close>

definition uptoLast :: "nat \<Rightarrow> jsstring \<Rightarrow> jsstring" where
  "uptoLast c s = rev (dropWhile (\<lambda>x. x \<noteq> c) (rev s))"

definition braceAt :: "jsstring \<Rightarrow> jsstring option" where
  "braceAt s =
     (case s of
        [] \<Rightarrow> None
      | c # cs \<Rightarrow> if c = cu CHR ''{'' \<and> cu CHR ''}'' \<in> set cs
                  then Some (c # uptoLast (cu CHR ''}'') cs) else None)"

text \<open>\<open>candidate\<close> and \<open>jsonStr\<close> of \<open>safeParseReview\<close>, for a text already trimmed.\<close>

definition candidateOf :: "jsstring \<Rightarrow> jsstring" where
  "candidateOf text = (case fenceMatch text of Some c \<Rightarrow> c | None \<Rightarrow> text)"

definition jsonStrOf :: "jsstring \<Rightarrow> jsstring" where
  "jsonStrOf text =
     (let candidate = candidateOf text
      in case firstMatch braceAt candidate of Some obj \<Rightarrow> obj | None \<Rightarrow> candidate)"

text \<open>
  The body of the loop over the issues, statement by statement:
  \<^verbatim>\<open>
  it.startLine = Math.max(1, Number(it.startLine) || 1);
  it.endLine   = Math.max(it.startLine, Number(it.endLine) || it.startLine);
  if (!['blocker','major','nit'].includes(it.severity)) it.severity = 'major';
  it.file = String(it.file || '').trim();
  it.file = it.file.replace(/^a\//,'').replace(/^b\//,'').replace(/^\.\/+|^\/+/,'');
  \<close>
\<close>

definition severities :: "jsval list" where
  "severities = [Str (js ''blocker''), Str (js ''major''), Str (js ''nit'')]"

definition fixIssue :: "jsval \<Rightarrow> js_error + jsval" where
  "fixIssue it =
     bindE (getProp it (js ''startLine'')) (\<lambda>sl.
     bindE (toNumberE sl) (\<lambda>n.
     bindE (setProp it (js ''startLine'') (Num (mathMax (Fin 1) (numOr n (Fin 1))))) (\<lambda>it1.
     bindE (getProp it1 (js ''startLine'')) (\<lambda>sl1.
     bindE (getProp it1 (js ''endLine'')) (\<lambda>el.
     bindE (toNumberE el) (\<lambda>m.
     bindE (toNumberE sl1) (\<lambda>a.
     bindE (toNumberE (jsOr (Num m) sl1)) (\<lambda>b.
     bindE (setProp it1 (js ''endLine'') (Num (mathMax a b))) (\<lambda>it2.
     bindE (getProp it2 (js ''severity'')) (\<lambda>sev.
     bindE (if sev \<in> set severities then Inr it2
            else setProp it2 (js ''severity'') (Str (js ''major''))) (\<lambda>it3.
     bindE (getProp it3 (js ''file'')) (\<lambda>f.
     bindE (toStringE (jsOr f (Str []))) (\<lambda>fs.
     bindE (setProp it3 (js ''file'') (Str (trim fs))) (\<lambda>it4.
     bindE (getProp it4 (js ''file'')) (\<lambda>f1.
     bindE (stringReceiver f1) (\<lambda>f2.
     setProp it4 (js ''file'') (Str (normalizeFile f2))))))))))))))))))"

text \<open>
  The \<open>try\<close> block: \<open>JSON.parse\<close>, the coercion of \<open>parsed.issues\<close> (anything that is not an
  array becomes the empty array), the loop, and the result.
\<close>

definition reviewOfJson :: "jsstring \<Rightarrow> js_error + ReviewResult" where
  "reviewOfJson jsonStr =
     (case JSON_parse jsonStr of
        None \<Rightarrow> Inl SyntaxError
      | Some parsed \<Rightarrow>
          bindE (getProp parsed (js ''issues'')) (\<lambda>pi.
          bindE (case pi of
                   Arr es ps \<Rightarrow> bindE (mapE fixIssue es) (\<lambda>es'. Inr (Arr es' ps))
                 | _ \<Rightarrow> Inr (Arr [] [])) (\<lambda>fixed.
          bindE (getProp parsed (js ''summary'')) (\<lambda>sm.
          bindE (toStringE (jsOr sm (Str []))) (\<lambda>s.
          Inr \<lparr> summary = s, issues = fixed \<rparr>)))))"

text \<open>The \<open>catch\<close> block answers every error of the \<open>try\<close> block.\<close>

definition safeParseReview :: "jsstring \<Rightarrow> ReviewResult" where
  "safeParseReview modelText =
     (let text = trim modelText
      in case reviewOfJson (jsonStrOf text) of
           Inl err \<Rightarrow> \<lparr> summary = take 800 text, issues = Arr [] [] \<rparr>
         | Inr review \<Rightarrow> review)"

section \<open>The spec filter\<close>

text \<open>
  \<^verbatim>\<open>acceptance.match(/require\s+(\d+)\s+exclamation\s*marks?/i)\<close>
  At a start position each quantified class takes its whole run: the classes and the
  letters that follow them are disjoint, so no shorter run can make the rest match. The
  result is the captured group, the run of digits. The optional final \<open>s\<close> changes neither
  success nor the group.
\<close>

definition requireAt :: "jsstring \<Rightarrow> jsstring option" where
  "requireAt s =
     (if startsWithCI (js ''require'') s then
        (let r1 = drop 7 s;
             r2 = dropWhile isSpace r1;
             ds = takeWhile isDigit r2;
             r3 = dropWhile isDigit r2;
             r4 = dropWhile isSpace r3
         in if takeWhile isSpace r1 \<noteq> [] \<and> ds \<noteq> [] \<and> takeWhile isSpace r3 \<noteq> []
              \<and> startsWithCI (js ''exclamation'') r4
              \<and> startsWithCI (js ''mark'') (dropWhile isSpace (drop 11 r4))
            then Some ds else None)
      else None)"

definition requireMatch :: "jsstring \<Rightarrow> jsstring option" where
  "requireMatch acceptance = firstMatch requireAt acceptance"

text \<open>\<^verbatim>\<open>/exclamation/i.test(x)\<close> on the string of \<open>x\<close>.\<close>

definition containsCI :: "jsstring \<Rightarrow> jsstring \<Rightarrow> bool" where
  "containsCI p s = (firstMatch (\<lambda>t. if startsWithCI p t then Some () else None) s \<noteq> None)"

text \<open>
  \<^verbatim>\<open>text.split('\n')[Math.max(0, it.startLine - 1)] ?? ''\<close>
  An array has an element at a number only if the number is an integer within the bounds;
  anywhere else the read is \<open>undefined\<close> and the line is taken as empty.
\<close>

definition elementAt :: "jsstring list \<Rightarrow> jsnum \<Rightarrow> jsstring option" where
  "elementAt xs n =
     (case n of
        Fin r \<Rightarrow> if of_int \<lfloor>r\<rfloor> = r \<and> 0 \<le> r \<and> nat \<lfloor>r\<rfloor> < length xs then Some (xs ! nat \<lfloor>r\<rfloor>) else None
      | _ \<Rightarrow> None)"

definition lineAt :: "jsstring \<Rightarrow> jsnum \<Rightarrow> jsstring" where
  "lineAt text n =
     (case elementAt (splitLines text) (mathMax (Fin 0) (minusOne n)) of
        Some line \<Rightarrow> line
      | None \<Rightarrow> [])"

text \<open>\<^verbatim>\<open>(line.match(/!/g) || []).length\<close>\<close>

definition countBangs :: "jsstring \<Rightarrow> nat" where
  "countBangs line = length (filter (\<lambda>c. c = cu CHR ''!'') line)"

text \<open>
  The callback of \<open>issues.filter\<close>: \<open>True\<close> keeps the issue. \<open>fileTextByPath\<close> is the map
  from the \<open>file\<close> values of the issues to the loaded texts; \<open>!text\<close> holds for a missing
  entry and for an empty text. The subtraction converts \<open>it.startLine\<close> to a number; the
  test of the message, which converts it to a string, is evaluated only when the count
  equals the required number.
\<close>

definition keepIssue :: "jsnum \<Rightarrow> (jsval \<rightharpoonup> jsstring) \<Rightarrow> jsval \<Rightarrow> js_error + bool" where
  "keepIssue required fileTextByPath it =
     bindE (getProp it (js ''file'')) (\<lambda>file.
       case fileTextByPath file of
         None \<Rightarrow> Inr True
       | Some text \<Rightarrow>
           if text = [] then Inr True
           else bindE (getProp it (js ''startLine'')) (\<lambda>startLine.
                bindE (toNumberE startLine) (\<lambda>n.
                  if Fin (of_nat (countBangs (lineAt text n))) = required
                  then bindE (getProp it (js ''message'')) (\<lambda>message.
                       bindE (toStringE message) (\<lambda>s.
                         Inr (\<not> containsCI (js ''exclamation'') s)))
                  else Inr True)))"

fun filterE :: "('a \<Rightarrow> 'e + bool) \<Rightarrow> 'a list \<Rightarrow> 'e + 'a list" where
  "filterE f [] = Inr []"
| "filterE f (x # xs) =
     bindE (f x) (\<lambda>keep. bindE (filterE f xs) (\<lambda>ys. Inr (if keep then x # ys else ys)))"

definition filterIssuesAgainstSpec ::
  "jsval list \<Rightarrow> jsstring \<Rightarrow> (jsval \<rightharpoonup> jsstring) \<Rightarrow> js_error + jsval list" where
  "filterIssuesAgainstSpec items acceptance fileTextByPath =
     (case requireMatch acceptance of
        None \<Rightarrow> Inr items
      | Some digits \<Rightarrow>
          filterE (keepIssue (Fin (of_nat (decimalValue digits))) fileTextByPath) items)"

section \<open>JSON.stringify\<close>

text \<open>
  \<open>JSON.stringify\<close> without replacer and indentation. A string is quoted: the quotation mark,
  the backslash and the control characters are escaped, a surrogate that has no partner is
  written as a \<open>\u\<close> escape, and every other code unit (the angle brackets, the slash and the
  ampersand among them) is copied. A number that is not finite, and an \<open>undefined\<close> element
  of an array, are written \<open>null\<close>; a property whose value is \<open>undefined\<close> is left out. The
  properties of an object come in the order of its own keys: array indices in ascending
  order, then the other names in creation order. An own property \<open>toJSON\<close> that came out of
  \<open>JSON.parse\<close> is no function and is ignored.
\<close>

definition hexDigit :: "nat \<Rightarrow> nat" where
  "hexDigit d = (if d < 10 then 48 + d else 87 + d)"

definition unicodeEscape :: "nat \<Rightarrow> jsstring" where
  "unicodeEscape c =
     [92, 117, hexDigit (c div 4096 mod 16), hexDigit (c div 256 mod 16),
      hexDigit (c div 16 mod 16), hexDigit (c mod 16)]"

definition isHighSurrogate :: "nat \<Rightarrow> bool" where
  "isHighSurrogate c = (55296 \<le> c \<and> c \<le> 56319)"

definition isLowSurrogate :: "nat \<Rightarrow> bool" where
  "isLowSurrogate c = (56320 \<le> c \<and> c \<le> 57343)"

definition quoteUnit :: "nat \<Rightarrow> jsstring" where
  "quoteUnit c =
     (if c = 8 then [92, 98]
      else if c = 9 then [92, 116]
      else if c = 10 then [92, 110]
      else if c = 12 then [92, 102]
      else if c = 13 then [92, 114]
      else if c = 34 then [92, 34]
      else if c = 92 then [92, 92]
      else if c < 32 \<or> isHighSurrogate c \<or> isLowSurrogate c then unicodeEscape c
      else [c])"

fun quoteChars :: "jsstring \<Rightarrow> jsstring" where
  "quoteChars [] = []"
| "quoteChars [c] = quoteUnit c"
| "quoteChars (c # d # cs) =
     (if isHighSurrogate c \<and> isLowSurrogate d then c # d # quoteChars cs
      else quoteUnit c @ quoteChars (d # cs))"

definition quoteJSON :: "jsstring \<Rightarrow> jsstring" where
  "quoteJSON s = [34] @ quoteChars s @ [34]"

definition isArrayIndex :: "jsstring \<Rightarrow> bool" where
  "isArrayIndex k =
     (k \<noteq> [] \<and> list_all isDigit k \<and> (hd k \<noteq> 48 \<or> k = [48]) \<and> decimalValue k < 4294967295)"

definition ownKeyOrder :: "(jsstring \<times> 'a) list \<Rightarrow> (jsstring \<times> 'a) list" where
  "ownKeyOrder ps =
     sort_key (\<lambda>p. decimalValue (fst p)) (filter (\<lambda>p. isArrayIndex (fst p)) ps)
     @ filter (\<lambda>p. \<not> isArrayIndex (fst p)) ps"

fun jsonStringify :: "jsval \<Rightarrow> jsstring" where
  "jsonStringify Undefined = js ''null''"
| "jsonStringify Null = js ''null''"
| "jsonStringify (Bool b) = (if b then js ''true'' else js ''false'')"
| "jsonStringify (Num n) = (case n of Fin r \<Rightarrow> numberToString n | _ \<Rightarrow> js ''null'')"
| "jsonStringify (Str s) = quoteJSON s"
| "jsonStringify (Arr es ps) = js ''['' @ joinWith (js '','') (map jsonStringify es) @ js '']''"
| "jsonStringify (Obj ps) =
     js ''{''
     @ joinWith (js '','')
         (map (\<lambda>(k, r). quoteJSON k @ js '':'' @ r)
            (ownKeyOrder (map (\<lambda>(k, v). (k, jsonStringify v))
               (filter (\<lambda>(k, v). v \<noteq> Undefined) ps))))
     @ js ''}''"

section \<open>The host\<close>

text \<open>
  The command talks to its surroundings: the editor, the file system, git and the network.
  A \<open>world\<close> fixes what these answer; the calls the command makes are recorded as events, in
  the order in which they are made. A response of the network carries its status and its
  body, \<open>None\<close> when reading the body fails. The module \<open>path\<close>, the documents the editor can
  open and the errors that the constructors of the editor's classes \<open>Position\<close>, \<open>Range\<close> and
  \<open>Diagnostic\<close> raise on their arguments belong to the host and are fields of the world.
\<close>

datatype http_response = Response nat "jsstring option"

datatype diag_severity = DiagError | DiagWarning | DiagHint

datatype diagnostic = Diagnostic jsnum jsnum jsval diag_severity

record world =
  workspaceFolder :: "jsstring option"
  specFile :: "(js_error + jsstring) option"
  inputBox :: "jsstring option"
  gitVersion :: bool
  gitDiff :: "js_error + jsstring"
  configModel :: "jsstring option"
  configRemoteUrl :: "jsstring option"
  httpGet :: "jsstring \<Rightarrow> http_response option"
  httpPost :: "jsstring \<Rightarrow> jsstring \<Rightarrow> http_response option"
  openTextDocument :: "jsstring \<Rightarrow> jsstring option"
  pathIsAbsolute :: "jsstring \<Rightarrow> bool"
  pathJoin :: "jsstring \<Rightarrow> jsstring \<Rightarrow> jsstring"
  positionError :: "jsnum \<Rightarrow> nat \<Rightarrow> js_error option"
  diagnosticError :: "diagnostic \<Rightarrow> js_error option"

datatype event =
    ShowErrorMessage jsstring
  | ShowInformationMessage jsstring
  | WithProgress jsstring
  | ProgressReport jsstring
  | ShowInputBox
  | Exec jsstring
  | HttpGet jsstring
  | HttpPost jsstring jsstring
  | OpenTextDocument jsstring
  | CreateWebviewPanel
  | SetWebviewHtml jsstring
  | SetDiagnostics "(jsstring \<times> diagnostic list) list"
  | ReviewFailed js_error

text \<open>
  A step of the command: the events it caused, and its result or the error it threw.
  \<open>bindR\<close> sequences two steps; the second does not run when the first throws.
\<close>

type_synonym 'a run = "event list \<times> (js_error + 'a)"

definition returnR :: "'a \<Rightarrow> 'a run" where
  "returnR x = ([], Inr x)"

definition throwR :: "js_error \<Rightarrow> 'a run" where
  "throwR err = ([], Inl err)"

definition liftR :: "js_error + 'a \<Rightarrow> 'a run" where
  "liftR r = ([], r)"

definition emit :: "event \<Rightarrow> unit run" where
  "emit e = ([e], Inr ())"

definition bindR :: "'a run \<Rightarrow> ('a \<Rightarrow> 'b run) \<Rightarrow> 'b run" where
  "bindR m f =
     (case m of
        (evs, Inl err) \<Rightarrow> (evs, Inl err)
      | (evs, Inr x) \<Rightarrow> (case f x of (evs', r) \<Rightarrow> (evs @ evs', r)))"

text \<open>\<open>fetch(url)\<close> and \<open>fetch(url, { method: 'POST', body })\<close>: a rejected request throws.\<close>

definition fetchGet :: "world \<Rightarrow> jsstring \<Rightarrow> http_response run" where
  "fetchGet w url =
     ([HttpGet url], case httpGet w url of None \<Rightarrow> Inl FetchError | Some res \<Rightarrow> Inr res)"

definition fetchPost :: "world \<Rightarrow> jsstring \<Rightarrow> jsstring \<Rightarrow> http_response run" where
  "fetchPost w url body =
     ([HttpPost url body],
      case httpPost w url body of None \<Rightarrow> Inl FetchError | Some res \<Rightarrow> Inr res)"

text \<open>\<open>res.ok\<close>, \<open>res.text()\<close>, \<open>res.json()\<close> and \<open>safeText(res)\<close>.\<close>

definition responseOk :: "http_response \<Rightarrow> bool" where
  "responseOk res = (case res of Response status body \<Rightarrow> 200 \<le> status \<and> status \<le> 299)"

definition responseStatus :: "http_response \<Rightarrow> nat" where
  "responseStatus res = (case res of Response status body \<Rightarrow> status)"

definition responseText :: "http_response \<Rightarrow> js_error + jsstring" where
  "responseText res =
     (case res of Response status body \<Rightarrow>
        (case body of None \<Rightarrow> Inl FetchError | Some t \<Rightarrow> Inr t))"

definition responseJson :: "http_response \<Rightarrow> js_error + jsval" where
  "responseJson res =
     bindE (responseText res) (\<lambda>t.
       case JSON_parse t of None \<Rightarrow> Inl SyntaxError | Some v \<Rightarrow> Inr v)"

definition safeText :: "http_response \<Rightarrow> jsstring" where
  "safeText res = (case responseText res of Inl err \<Rightarrow> js ''<no body>'' | Inr t \<Rightarrow> t)"

section \<open>The inference client\<close>

text \<open>
  \<open>ensureOllamaReady\<close>. The \<open>try\<close> block holds the request and the reading of the body as
  JSON; whatever it throws becomes the error that tells the user to start the server. The
  status of the response is not looked at.
  \<^verbatim>\<open>!!json?.models?.some((m: any) => m.name === model)\<close>: the optional chain answers
  \<open>undefined\<close> for a \<open>json\<close> or a \<open>models\<close> that is \<open>null\<close> or \<open>undefined\<close>; a \<open>models\<close> that is no
  array has no method \<open>some\<close>, so the call throws; \<open>some\<close> stops at the first entry with the
  name, and reading the name of a \<open>null\<close> entry throws.
\<close>

definition tagsUrl :: jsstring where
  "tagsUrl = js ''http://127.0.0.1:11434/api/tags''"

definition generateUrl :: jsstring where
  "generateUrl = js ''http://127.0.0.1:11434/api/generate''"

definition serverNotReachable :: jsstring where
  "serverNotReachable = js ''Ollama server not reachable at 127.0.0.1:11434. Run `ollama serve`.''"

definition modelNotFound :: "jsstring \<Rightarrow> jsstring" where
  \<open>modelNotFound model =
     js ''Model "'' @ model @ js ''" not found in Ollama. Run: ollama pull '' @ model\<close>

fun someNamed :: "jsstring \<Rightarrow> jsval list \<Rightarrow> js_error + bool" where
  "someNamed model [] = Inr False"
| "someNamed model (m # ms) =
     bindE (getProp m (js ''name'')) (\<lambda>name.
       if name = Str model then Inr True else someNamed model ms)"

definition hasModel :: "jsstring \<Rightarrow> jsval \<Rightarrow> js_error + bool" where
  "hasModel model json =
     (if json = Undefined \<or> json = Null then Inr False
      else bindE (getProp json (js ''models'')) (\<lambda>models.
             case models of
               Undefined \<Rightarrow> Inr False
             | Null \<Rightarrow> Inr False
             | Arr ms ps \<Rightarrow> if hasOwn ps (js ''some'') then Inl TypeError else someNamed model ms
             | _ \<Rightarrow> Inl TypeError))"

definition ensureOllamaReady :: "world \<Rightarrow> jsstring \<Rightarrow> unit run" where
  "ensureOllamaReady w model =
     (case bindR (fetchGet w tagsUrl) (\<lambda>res. liftR (responseJson res)) of
        (evs, Inl err) \<Rightarrow> (evs, Inl (Error serverNotReachable))
      | (evs, Inr json) \<Rightarrow>
          (evs, bindE (hasModel model json) (\<lambda>found.
                  if found then Inr () else Inl (Error (modelNotFound model)))))"

text \<open>
  The answer of the local server is a sequence of lines of JSON:
  \<^verbatim>\<open>text.split('\n').filter(Boolean).map(line => { try { return JSON.parse(line).response as string; } catch { return ''; } }).join('')\<close>
  \<open>join\<close> takes \<open>undefined\<close> and \<open>null\<close> as empty and converts every other value to a string.
\<close>

definition lineResponse :: "jsstring \<Rightarrow> jsval" where
  "lineResponse line =
     (case JSON_parse line of
        None \<Rightarrow> Str []
      | Some v \<Rightarrow> (case getProp v (js ''response'') of Inl err \<Rightarrow> Str [] | Inr r \<Rightarrow> r))"

definition joinValues :: "jsval list \<Rightarrow> js_error + jsstring" where
  "joinValues vs =
     bindE (mapE (\<lambda>v. if v = Undefined \<or> v = Null then Inr [] else toStringE v) vs)
       (\<lambda>parts. Inr (concat parts))"

definition combineStream :: "jsstring \<Rightarrow> js_error + jsstring" where
  "combineStream text = joinValues (map lineResponse (filter (\<lambda>l. l \<noteq> []) (splitLines text)))"

text \<open>
  \<open>getReview\<close>. Without a remote URL the review is what \<open>safeParseReview\<close> makes of the
  combined answer of the local server. With a remote URL it is built from the JSON body of
  the proxy's answer: \<^verbatim>\<open>{ summary: String(data.summary || ''), issues: (data.issues || []) }\<close>.
\<close>

definition getReview :: "world \<Rightarrow> jsstring \<Rightarrow> jsstring \<Rightarrow> jsstring \<Rightarrow> ReviewResult run" where
  "getReview w prompt model remoteUrl =
     (if remoteUrl = [] then
        bindR (ensureOllamaReady w model) (\<lambda>u.
        bindR (fetchPost w generateUrl
                 (jsonStringify (Obj [(js ''model'', Str model), (js ''prompt'', Str prompt),
                    (js ''options'', Obj [(js ''temperature'', Num (Fin 0))])]))) (\<lambda>res.
        if \<not> responseOk res
        then throwR (Error (js ''Ollama HTTP '' @ digitsOf (responseStatus res) @ js '': ''
                            @ safeText res))
        else bindR (liftR (responseText res)) (\<lambda>text.
             bindR (liftR (combineStream text)) (\<lambda>combined.
             returnR (safeParseReview combined)))))
      else
        bindR (fetchPost w remoteUrl (jsonStringify (Obj [(js ''prompt'', Str prompt)]))) (\<lambda>res.
        if \<not> responseOk res
        then throwR (Error (js ''Remote reviewer HTTP '' @ digitsOf (responseStatus res) @ js '': ''
                            @ safeText res))
        else bindR (liftR (responseJson res)) (\<lambda>data.
             bindR (liftR (getProp data (js ''summary''))) (\<lambda>sm.
             bindR (liftR (toStringE (jsOr sm (Str [])))) (\<lambda>s.
             bindR (liftR (getProp data (js ''issues''))) (\<lambda>iss.
             returnR \<lparr> summary = s, issues = jsOr iss (Arr [] []) \<rparr>))))))"

section \<open>The command\<close>

text \<open>\<open>readAcceptance\<close>: the spec file of the workspace if it exists, else what the user types
  into the input box (nothing, when the box is dismissed).\<close>

definition readAcceptance :: "world \<Rightarrow> jsstring run" where
  "readAcceptance w =
     (case specFile w of
        Some content \<Rightarrow> liftR content
      | None \<Rightarrow>
          bindR (emit ShowInputBox) (\<lambda>u.
          returnR (case inputBox w of None \<Rightarrow> [] | Some t \<Rightarrow> t)))"

text \<open>\<open>getGitDiff\<close>: \<^verbatim>\<open>git --version\<close>, whose failure is reported as a missing git, then
  \<^verbatim>\<open>git diff --no-color\<close>, whose standard output is the diff.\<close>

definition getGitDiff :: "world \<Rightarrow> jsstring run" where
  "getGitDiff w =
     bindR (emit (Exec (js ''git --version''))) (\<lambda>u.
     if \<not> gitVersion w then throwR (Error (js ''Git not found in PATH.''))
     else bindR (emit (Exec (js ''git diff --no-color''))) (\<lambda>u. liftR (gitDiff w)))"

text \<open>\<open>buildPrompt\<close>: the template with the acceptance criteria and the diff, trimmed.\<close>

definition buildPrompt :: "jsstring \<Rightarrow> jsstring \<Rightarrow> jsstring" where
  \<open>buildPrompt acceptance diff =
     trim
      ([10] @ js ''You are a strict PR reviewer.'' @ [10, 10] @
       js ''AUTHORITATIVE ORDER OF TRUTH:'' @ [10] @
       js ''1) Acceptance criteria (SPEC) are absolute. If code matches the SPEC, do NOT suggest changes that violate it.'' @
       [10] @ js ''2) Correctness/security next.'' @ [10] @
       js ''3) Style/nits only when they do not conflict with the SPEC.'' @ [10, 10] @
       js ''Output format (JSON only; no markdown/backticks):'' @ [10] @ js ''{'' @ [10] @
       js ''  "summary": "short overview",'' @ [10] @ js ''  "issues": ['' @ [10] @ js ''    {'' @
       [10] @ js ''      "file": "path (absolute or workspace-relative)",'' @ [10] @
       js ''      "startLine": 10,'' @ [10] @ js ''      "endLine": 12,'' @ [10] @
       js ''      "severity": "blocker" | "major" | "nit",'' @ [10] @
       js ''      "message": "what & why (reference the specific SPEC line if applicable)",'' @
       [10] @ js ''      "suggestion": "optional minimal patch"'' @ [10] @ js ''    }'' @ [10] @
       js ''  ]'' @ [10] @ js ''}'' @ [10, 10] @ js ''Specific instructions:'' @ [10] @
       js ''- If the SPEC explicitly asks for something unusual (e.g., "Require 4 exclamation marks"), treat it as correct. Do not override with generic style advice.'' @
       [10] @ js ''- Where possible, use simple numeric/regex checks to verify SPEC (e.g., count '' @
       [39] @ js ''!'' @ [39] @ js '' on the changed line).'' @ [10] @
       js ''- If there are zero issues, return {"summary": "why it'' @ [39] @
       js ''s ok", "issues": []}.'' @ [10, 10] @ js ''Acceptance Criteria (SPEC):'' @ [10] @
       (if acceptance = [] then js ''(none provided)'' else acceptance) @ [10, 10] @
       js ''Changed Code (unified diff):'' @ [10] @ diff @ [10, 10] @ js ''Review rules:'' @ [10] @
       js ''- Focus on the changed lines in the diff; only step outside for clear adjacent spec/security issues.'' @
       [10] @ js ''- Be precise, actionable, minimal. Use correct line ranges (1-based).'' @ [10] @
       js ''- "blocker" = fails spec/tests/security; "major" = correctness/design; "nit" = style (only if it doesn'' @
       [8217] @ js ''t conflict with the SPEC).'' @ [10])\<close>

text \<open>
  \<open>toAbsolutePath\<close>. A falsy path is the workspace root. The replacements are methods of
  strings: a truthy value that is not a string makes the call throw.
\<close>

definition toAbsolutePath :: "world \<Rightarrow> jsval \<Rightarrow> jsstring \<Rightarrow> js_error + jsstring" where
  "toAbsolutePath w p workspaceRoot =
     (if \<not> toBoolean p then Inr workspaceRoot
      else bindE (stringReceiver p) (\<lambda>s.
             let cleaned = cleanPath s
             in Inr (if pathIsAbsolute w cleaned then cleaned else pathJoin w workspaceRoot cleaned)))"

text \<open>
  \<open>for (const it of review.issues)\<close>: an array gives its elements and a string its code
  points; nothing else that \<open>JSON.parse\<close> returns can be iterated.
\<close>

fun codePoints :: "jsstring \<Rightarrow> jsstring list" where
  "codePoints [] = []"
| "codePoints [c] = [[c]]"
| "codePoints (c # d # cs) =
     (if isHighSurrogate c \<and> isLowSurrogate d then [c, d] # codePoints cs
      else [c] # codePoints (d # cs))"

definition iterate :: "jsval \<Rightarrow> js_error + jsval list" where
  "iterate v =
     (case v of
        Arr es ps \<Rightarrow> Inr es
      | Str s \<Rightarrow> Inr (map Str (codePoints s))
      | _ \<Rightarrow> Inl TypeError)"

text \<open>
  The loop of the command that loads the texts of the flagged files. A document that cannot
  be opened is skipped. The map is keyed by the \<open>file\<close> values themselves; a key is a string
  or a falsy value, since \<open>toAbsolutePath\<close> has thrown for any other.
\<close>

fun loadTexts ::
  "world \<Rightarrow> jsstring \<Rightarrow> jsval list \<Rightarrow> (jsval \<rightharpoonup> jsstring) \<Rightarrow> (jsval \<rightharpoonup> jsstring) run" where
  "loadTexts w wsRoot [] m = returnR m"
| "loadTexts w wsRoot (it # its) m =
     bindR (liftR (getProp it (js ''file''))) (\<lambda>file.
     bindR (liftR (toAbsolutePath w file wsRoot)) (\<lambda>abs.
     bindR (emit (OpenTextDocument abs)) (\<lambda>u.
     loadTexts w wsRoot its
       (case openTextDocument w abs of None \<Rightarrow> m | Some text \<Rightarrow> m(file \<mapsto> text)))))"

text \<open>
  The call \<open>filterIssuesAgainstSpec(review.issues, acceptance, fileTextByPath)\<close> on whatever
  \<open>review.issues\<close> holds: without a rule the value comes back as it is; with a rule \<open>filter\<close>
  is called on it, a method that only arrays have, and a new array is returned.
\<close>

definition filterStep :: "jsval \<Rightarrow> jsstring \<Rightarrow> (jsval \<rightharpoonup> jsstring) \<Rightarrow> js_error + jsval" where
  "filterStep v acceptance fileTextByPath =
     (case requireMatch acceptance of
        None \<Rightarrow> Inr v
      | Some digits \<Rightarrow>
          (case v of
             Arr es ps \<Rightarrow>
               if hasOwn ps (js ''filter'') then Inl TypeError
               else bindE (filterIssuesAgainstSpec es acceptance fileTextByPath)
                      (\<lambda>kept. Inr (Arr kept []))
           | _ \<Rightarrow> Inl TypeError))"

section \<open>The review panel\<close>

text \<open>
  \<open>escapeHtml\<close> applied to a value: \<open>replace\<close> is a method of strings.
\<close>

definition escapeHtmlOf :: "jsval \<Rightarrow> js_error + jsstring" where
  "escapeHtmlOf v = bindE (stringReceiver v) (\<lambda>s. Inr (escapeHtml s))"

definition suggestionBlock :: "jsstring \<Rightarrow> jsstring" where
  \<open>suggestionBlock escaped =
     [10] @ js ''      <div style="margin-top:8px">'' @ [10] @
     js ''        <div style="opacity:.7;font-size:12px">Suggestion</div>'' @ [10] @
     js ''        <pre style="white-space:pre-wrap;background:#0001;padding:8px;border-radius:8px">'' @
     escaped @ js ''</pre>'' @ [10] @ js ''      </div>''\<close>

definition issueCardHtml ::
  "jsstring \<Rightarrow> jsstring \<Rightarrow> jsstring \<Rightarrow> jsstring \<Rightarrow> jsstring \<Rightarrow> nat \<Rightarrow> jsstring \<Rightarrow> jsstring \<Rightarrow> jsstring" where
  \<open>issueCardHtml badge sev file startLine endLine i msg sug =
     [10] @
     js ''      <div style="border:1px solid #0002;border-radius:12px;padding:12px;margin:12px 0">'' @
     [10] @
     js ''        <div style="display:flex;gap:8px;align-items:center;margin-bottom:6px">'' @
     [10] @ js ''          <span style="display:inline-block;background:'' @ badge @
     js '';color:white;border-radius:999px;padding:2px 8px;font-size:12px;text-transform:uppercase">'' @
     sev @ js ''</span>'' @ [10] @ js ''          <code style="opacity:.9">'' @ file @ js '':'' @
     startLine @ js ''-'' @ endLine @ js ''</code>'' @ [10] @ js ''          <button data-i="'' @
     digitsOf i @
     js ''" style="margin-left:auto;padding:4px 10px;border-radius:8px;border:1px solid #0002;background:#0001;cursor:pointer">Open</button>'' @
     [10] @ js ''        </div>'' @ [10] @ js ''        <div>'' @ msg @ js ''</div>'' @ [10] @
     js ''        '' @ sug @ [10] @ js ''      </div>'' @ [10] @ js ''    ''\<close>

text \<open>
  The callback of \<open>map\<close> in \<open>showReviewPanel\<close>: the card of the issue \<open>it\<close> at index \<open>i\<close>. The
  severity, the file, the message and the suggestion go through \<open>escapeHtml\<close>; the two line
  numbers are converted to strings by the template.
\<close>

definition issueCard :: "nat \<Rightarrow> jsval \<Rightarrow> js_error + jsstring" where
  "issueCard i it =
     bindE (getProp it (js ''severity'')) (\<lambda>severity.
     bindE (getProp it (js ''file'')) (\<lambda>f.
     bindE (escapeHtmlOf (jsOr f (Str []))) (\<lambda>file.
     bindE (getProp it (js ''message'')) (\<lambda>m.
     bindE (escapeHtmlOf (jsOr m (Str []))) (\<lambda>msg.
     bindE (getProp it (js ''suggestion'')) (\<lambda>sg.
     bindE (if toBoolean sg
            then bindE (escapeHtmlOf sg) (\<lambda>escaped. Inr (suggestionBlock escaped))
            else Inr []) (\<lambda>sug.
     bindE (escapeHtmlOf severity) (\<lambda>sev.
     bindE (getProp it (js ''startLine'')) (\<lambda>sl.
     bindE (toStringE sl) (\<lambda>startLine.
     bindE (getProp it (js ''endLine'')) (\<lambda>el.
     bindE (toStringE el) (\<lambda>endLine.
     Inr (issueCardHtml
            (if severity = Str (js ''blocker'') then js ''#b00020''
             else if severity = Str (js ''major'') then js ''#c77800''
             else js ''#5e6ad2'')
            sev file startLine endLine i msg sug)))))))))))))"

fun issueCards :: "nat \<Rightarrow> jsval list \<Rightarrow> js_error + jsstring list" where
  "issueCards i [] = Inr []"
| "issueCards i (it # its) =
     bindE (issueCard i it) (\<lambda>c. bindE (issueCards (Suc i) its) (\<lambda>cs. Inr (c # cs)))"

definition issuesHeading :: "nat \<Rightarrow> jsstring" where
  \<open>issuesHeading n =
     (if n = 0 then js ''<p style="opacity:.7;margin-top:12px">No issues reported.</p>''
      else js ''<h3 style="margin:16px 0 8px">Issues ('' @ digitsOf n @ js '')</h3>'')\<close>

definition panelPage :: "jsstring \<Rightarrow> jsstring \<Rightarrow> jsstring \<Rightarrow> jsstring \<Rightarrow> jsstring" where
  \<open>panelPage summaryHtml heading cards json =
     [10] @
     js ''    <div style="font-family: system-ui, -apple-system, Segoe UI, Roboto, Helvetica, Arial; padding:16px; line-height:1.5">'' @
     [10] @ js ''      <h2 style="margin:0 0 8px 0">AI Review</h2>'' @ [10] @
     js ''      <pre style="white-space:pre-wrap;background:#0001;padding:12px;border-radius:12px">'' @
     summaryHtml @ js ''</pre>'' @ [10] @ js ''      '' @ heading @ [10] @ js ''      '' @ cards @
     [10] @ js ''      <script>'' @ [10] @ js ''        const vscode = acquireVsCodeApi();'' @
     [10] @ js ''        const btns = document.querySelectorAll('' @ [39] @ js ''button[data-i]'' @
     [39] @ js '');'' @ [10] @ js ''        btns.forEach(b => b.addEventListener('' @ [39] @
     js ''click'' @ [39] @ js '', () => {'' @ [10] @
     js ''          const i = Number(b.getAttribute('' @ [39] @ js ''data-i'' @ [39] @ js ''));'' @
     [10] @ js ''          const it = '' @ json @ js ''[i];'' @ [10] @
     js ''          vscode.postMessage({ cmd: '' @ [39] @ js ''open'' @ [39] @
     js '', file: it.file, startLine: it.startLine, endLine: it.endLine });'' @ [10] @
     js ''        }));'' @ [10] @ js ''      </script>'' @ [10] @ js ''    </div>'' @ [10] @
     js ''  ''\<close>

text \<open>
  The markup that \<open>showReviewPanel\<close> assigns to the panel. \<open>map\<close> is a method of arrays. The
  list of issues is also written into the script of the page, as \<open>JSON.stringify\<close> renders
  it.
\<close>

definition panelHtml :: "ReviewResult \<Rightarrow> js_error + jsstring" where
  "panelHtml review =
     (case jsOr (issues review) (Arr [] []) of
        Arr es ps \<Rightarrow>
          if hasOwn ps (js ''map'') then Inl TypeError
          else bindE (issueCards 0 es) (\<lambda>cards.
                 Inr (panelPage
                        (escapeHtml (if summary review = [] then js ''No summary''
                                     else summary review))
                        (issuesHeading (length es))
                        (concat cards)
                        (jsonStringify (Arr es ps))))
      | _ \<Rightarrow> Inl TypeError)"

definition showReviewPanel :: "ReviewResult \<Rightarrow> unit run" where
  "showReviewPanel review =
     bindR (emit CreateWebviewPanel) (\<lambda>u.
     bindR (liftR (panelHtml review)) (\<lambda>html.
     emit (SetWebviewHtml html)))"

section \<open>The diagnostics\<close>

text \<open>
  \<open>publishDiagnostics\<close> groups copies of the issues by their absolute paths, in the order in
  which the paths first occur, and turns every copy into a diagnostic. The copy
  \<^verbatim>\<open>{ ...it, file: filePath }\<close> has the properties of the issue; \<open>toDiagnostic\<close> reads those,
  subtracts 1 from the two line numbers and lets the host build the diagnostic.
\<close>

fun indexed :: "nat \<Rightarrow> 'a list \<Rightarrow> (jsstring \<times> 'a) list" where
  "indexed i [] = []"
| "indexed i (x # xs) = (digitsOf i, x) # indexed (Suc i) xs"

definition spreadProps :: "jsval \<Rightarrow> (jsstring \<times> jsval) list" where
  "spreadProps v =
     (case v of
        Obj ps \<Rightarrow> ownKeyOrder ps
      | Arr es ps \<Rightarrow> indexed 0 es @ ownKeyOrder ps
      | Str s \<Rightarrow> indexed 0 (map (\<lambda>c. Str [c]) s)
      | _ \<Rightarrow> [])"

definition newPosition :: "world \<Rightarrow> jsnum \<Rightarrow> nat \<Rightarrow> js_error + jsnum" where
  "newPosition w line character =
     (case positionError w line character of Some err \<Rightarrow> Inl err | None \<Rightarrow> Inr line)"

definition toDiagnostic :: "world \<Rightarrow> jsval \<Rightarrow> js_error + diagnostic" where
  "toDiagnostic w it =
     bindE (getProp it (js ''startLine'')) (\<lambda>startLine.
     bindE (toNumberE startLine) (\<lambda>s.
     bindE (newPosition w (minusOne s) 0) (\<lambda>startPos.
     bindE (getProp it (js ''endLine'')) (\<lambda>endLine.
     bindE (toNumberE endLine) (\<lambda>e.
     bindE (newPosition w (minusOne e) 1000) (\<lambda>endPos.
     bindE (getProp it (js ''severity'')) (\<lambda>severity.
     bindE (getProp it (js ''message'')) (\<lambda>message.
       let d = Diagnostic startPos endPos message
                 (if severity = Str (js ''blocker'') then DiagError
                  else if severity = Str (js ''major'') then DiagWarning
                  else DiagHint)
       in case diagnosticError w d of Some err \<Rightarrow> Inl err | None \<Rightarrow> Inr d))))))))"

fun addToGroup :: "jsstring \<Rightarrow> jsval \<Rightarrow> (jsstring \<times> jsval list) list \<Rightarrow> (jsstring \<times> jsval list) list" where
  "addToGroup p it [] = [(p, [it])]"
| "addToGroup p it ((q, l) # g) = (if q = p then (q, l @ [it]) # g else (q, l) # addToGroup p it g)"

fun groupIssues ::
  "world \<Rightarrow> jsstring \<Rightarrow> jsval list \<Rightarrow> (jsstring \<times> jsval list) list
   \<Rightarrow> js_error + (jsstring \<times> jsval list) list" where
  "groupIssues w wsRoot [] g = Inr g"
| "groupIssues w wsRoot (it # its) g =
     bindE (getProp it (js ''file'')) (\<lambda>file.
     bindE (toAbsolutePath w file wsRoot) (\<lambda>filePath.
     groupIssues w wsRoot its
       (addToGroup filePath (Obj (updateProp (spreadProps it) (js ''file'') (Str filePath))) g)))"

definition publishDiagnostics :: "world \<Rightarrow> jsval \<Rightarrow> jsstring \<Rightarrow> unit run" where
  "publishDiagnostics w v workspaceRoot =
     bindR (liftR (iterate v)) (\<lambda>items.
     bindR (liftR (groupIssues w workspaceRoot items [])) (\<lambda>grouped.
     bindR (liftR (mapE (\<lambda>(file, list).
              bindE (mapE (toDiagnostic w) list) (\<lambda>diags. Inr (file, diags))) grouped)) (\<lambda>entries.
     emit (SetDiagnostics entries))))"

section \<open>The review command\<close>

text \<open>
  The body of the command, step by step as in \<open>activate\<close>.
  \<^verbatim>\<open>cfg.get<string>('model') || 'llama3.1:8b'\<close> and \<^verbatim>\<open>cfg.get<string>('remoteUrl') || ''\<close>
  read the two settings; \<^verbatim>\<open>review.issues.length\<close> is read for the final message.
\<close>

definition lengthOf :: "jsval \<Rightarrow> js_error + jsstring" where
  "lengthOf v =
     (case v of
        Arr es ps \<Rightarrow> Inr (digitsOf (length es))
      | Str s \<Rightarrow> Inr (digitsOf (length s))
      | _ \<Rightarrow> bindE (getProp v (js ''length'')) toStringE)"

definition review :: "world \<Rightarrow> jsstring \<Rightarrow> unit run" where
  "review w wsRoot =
     bindR (emit (ProgressReport (js ''Reading acceptance criteria''))) (\<lambda>u.
     bindR (readAcceptance w) (\<lambda>acceptance.
     bindR (emit (ProgressReport (js ''Collecting diff (git)''))) (\<lambda>u.
     bindR (getGitDiff w) (\<lambda>diff.
     if trim diff = [] then emit (ShowInformationMessage (js ''No local changes (git diff is empty).''))
     else
       bindR (emit (ProgressReport (js ''Calling local model (Ollama)''))) (\<lambda>u.
       bindR (getReview w (buildPrompt acceptance diff)
                (case configModel w of
                   None \<Rightarrow> js ''llama3.1:8b''
                 | Some m \<Rightarrow> if m = [] then js ''llama3.1:8b'' else m)
                (case configRemoteUrl w of None \<Rightarrow> [] | Some url \<Rightarrow> url)) (\<lambda>r.
       bindR (liftR (iterate (issues r))) (\<lambda>items.
       bindR (loadTexts w wsRoot items Map.empty) (\<lambda>fileTextByPath.
       bindR (liftR (filterStep (issues r) acceptance fileTextByPath)) (\<lambda>kept.
       bindR (emit (ProgressReport (js ''Publishing results''))) (\<lambda>u.
       bindR (showReviewPanel \<lparr> summary = summary r, issues = kept \<rparr>) (\<lambda>u.
       bindR (publishDiagnostics w kept wsRoot) (\<lambda>u.
       bindR (liftR (lengthOf kept)) (\<lambda>n.
       emit (ShowInformationMessage
               (js ''AI Review complete: '' @ n @ js '' issue(s).'')))))))))))))))"

text \<open>
  The command: without a workspace folder it shows an error; otherwise it runs the review
  under a progress indicator, and the \<open>catch\<close> block logs and shows whatever was thrown.
\<close>

definition reviewCommand :: "world \<Rightarrow> event list" where
  "reviewCommand w =
     (case workspaceFolder w of
        None \<Rightarrow> [ShowErrorMessage (js ''Open a folder/workspace first.'')]
      | Some wsRoot \<Rightarrow>
          WithProgress (js ''AI Review: running'' @ [8230])
          # (case review w wsRoot of
               (evs, Inl err) \<Rightarrow> evs @ [ReviewFailed err]
             | (evs, Inr u) \<Rightarrow> evs))"

section \<open>Vocabulary of the specification\<close>

text \<open>
  The definitions of this section belong to the statements, not to the program.
  \<open>propOf\<close> reads a property of an issue. \<open>flaggedLine text startLine\<close> is the line of
  \<open>text\<close> at index \<open>max(0, startLine - 1)\<close>, empty when there is no such line.
  \<open>dropsIssue n m it\<close> is the condition under
  which the spec filter is said to drop an issue: the text of its file is loaded and not
  empty, the flagged line holds exactly \<open>n\<close> exclamation marks and the message mentions
  the word. \<open>specRuleOccurs\<close> says, in the words of the spec, that the pattern
  \<open>require N exclamation mark(s)\<close> occurs in a text, whatever the case of its letters.
\<close>

definition propOf :: "jsval \<Rightarrow> jsstring \<Rightarrow> jsval" where
  "propOf v k = (case getProp v k of Inl e \<Rightarrow> Undefined | Inr x \<Rightarrow> x)"



definition sameLetters :: "jsstring \<Rightarrow> jsstring \<Rightarrow> bool" where
  "sameLetters p s = (map asciiUpper s = map asciiUpper p)"

definition specRuleOccurs :: "jsstring \<Rightarrow> bool" where
  "specRuleOccurs acceptance =
     (\<exists>pre r w1 ds w2 e w3 m post.
        acceptance = pre @ r @ w1 @ ds @ w2 @ e @ w3 @ m @ post
        \<and> sameLetters (js ''require'') r
        \<and> w1 \<noteq> [] \<and> list_all isSpace w1
        \<and> ds \<noteq> [] \<and> list_all isDigit ds
        \<and> w2 \<noteq> [] \<and> list_all isSpace w2
        \<and> sameLetters (js ''exclamation'') e
        \<and> list_all isSpace w3
        \<and> sameLetters (js ''mark'') m)"

text \<open>
  \<open>isObject\<close> holds of the values that have properties, and \<open>coercible\<close> of those whose
  \<open>startLine\<close>, \<open>endLine\<close> and \<open>file\<close> can be converted. \<open>clamped\<close> is what the spec asks
  of every issue the parser returns. \<open>clampLine lo v\<close> is the number of \<open>v\<close> if that is at
  least \<open>lo\<close>, and \<open>lo\<close> otherwise; \<open>coercedFrom it it'\<close> says that the issue \<open>it'\<close> carries
  the clamped line numbers and the defaulted severity of the parsed issue \<open>it\<close>.
  \<open>issuesField\<close> is the array in the \<open>issues\<close> field of a parsed value, if there is one.
\<close>

fun isObject :: "jsval \<Rightarrow> bool" where
  "isObject (Obj ps) = True"
| "isObject (Arr es ps) = True"
| "isObject v = False"

definition coercible :: "jsval \<Rightarrow> bool" where
  "coercible it =
     (isObject it \<and> convertible (propOf it (js ''startLine''))
      \<and> convertible (propOf it (js ''endLine'')) \<and> convertible (propOf it (js ''file'')))"

definition clampLine :: "jsnum \<Rightarrow> jsval \<Rightarrow> jsnum" where
  "clampLine lo v = (if numLe lo (toNumber v) then toNumber v else lo)"

definition clamped :: "jsval \<Rightarrow> bool" where
  "clamped it =
     (case (propOf it (js ''startLine''), propOf it (js ''endLine'')) of
        (Num s, Num e) \<Rightarrow> numLe (Fin 1) s \<and> numLe s e \<and> propOf it (js ''severity'') \<in> set severities
      | _ \<Rightarrow> False)"

definition coercedFrom :: "jsval \<Rightarrow> jsval \<Rightarrow> bool" where
  "coercedFrom it it' =
     (propOf it' (js ''startLine'') = Num (clampLine (Fin 1) (propOf it (js ''startLine'')))
      \<and> propOf it' (js ''endLine'')
          = Num (clampLine (clampLine (Fin 1) (propOf it (js ''startLine''))) (propOf it (js ''endLine'')))
      \<and> propOf it' (js ''severity'')
          = (if propOf it (js ''severity'') \<in> set severities then propOf it (js ''severity'')
             else Str (js ''major'')))"

definition issuesField :: "jsval \<Rightarrow> jsval list option" where
  "issuesField parsed =
     (case getProp parsed (js ''issues'') of Inr (Arr es ps) \<Rightarrow> Some es | _ \<Rightarrow> None)"


text \<open>
  \<open>occursIn p s\<close>: the text \<open>p\<close> occurs in \<open>s\<close>. \<open>isNetworkRequest\<close> and \<open>isErrorReport\<close> single
  out the events that are requests to the network and reports of an error to the user.
  \<open>catalog w\<close> is the JSON value that the body of the answer to the request for the model
  catalog denotes, whatever the status of that answer; there is none when the request is
  rejected or the body cannot be read or is not JSON.
\<close>

definition occursIn :: "jsstring \<Rightarrow> jsstring \<Rightarrow> bool" where
  "occursIn p s = (firstMatch (\<lambda>t. if startsWith p t then Some () else None) s \<noteq> None)"

fun isNetworkRequest :: "event \<Rightarrow> bool" where
  "isNetworkRequest (HttpGet url) = True"
| "isNetworkRequest (HttpPost url body) = True"
| "isNetworkRequest e = False"

fun isErrorReport :: "event \<Rightarrow> bool" where
  "isErrorReport (ShowErrorMessage msg) = True"
| "isErrorReport (ReviewFailed err) = True"
| "isErrorReport e = False"

definition catalog :: "world \<Rightarrow> jsval option" where
  "catalog w =
     (case httpGet w tagsUrl of
        None \<Rightarrow> None
      | Some (Response status body) \<Rightarrow> (case body of None \<Rightarrow> None | Some t \<Rightarrow> JSON_parse t))"

text \<open>
  Worlds for the examples. In \<open>quietWorld\<close> the workspace has a spec file and git reports no
  change; the network answers nothing.
\<close>

definition quietWorld :: world where
  "quietWorld =
     \<lparr> workspaceFolder = Some (js ''/ws''), specFile = Some (Inr (js ''require 4 exclamation marks'')),
       inputBox = None, gitVersion = True, gitDiff = Inr [],
       configModel = None, configRemoteUrl = None,
       httpGet = (\<lambda>url. None), httpPost = (\<lambda>url body. None),
       openTextDocument = (\<lambda>p. None), pathIsAbsolute = (\<lambda>p. False),
       pathJoin = (\<lambda>a b. a @ js ''/'' @ b),
       positionError = (\<lambda>line character. None), diagnosticError = (\<lambda>d. None) \<rparr>"

section \<open>Proofs\<close>

declare digitsOf.simps [simp del]

lemma escapeChar_cases:
  "escapeChar c = (if c = 38 then js ''&amp;'' else if c = 60 then js ''&lt;''
     else if c = 62 then js ''&gt;'' else if c = 34 then js ''&quot;''
     else if c = 39 then js ''&#39;'' else [c])"
  by (simp add: escapeChar_def)

lemma escapeChar_clean:
  "x \<in> set (escapeChar c) \<Longrightarrow> x \<noteq> 60 \<and> x \<noteq> 62 \<and> x \<noteq> 34 \<and> x \<noteq> 39"
  by (auto simp: escapeChar_def split: if_splits)

lemma escapeHtml_clean:
  "x \<in> set (escapeHtml s) \<Longrightarrow> x \<noteq> 60 \<and> x \<noteq> 62 \<and> x \<noteq> 34 \<and> x \<noteq> 39"
  unfolding escapeHtml_def using escapeChar_clean by auto

lemma stripSlashes_id: "\<not> startsWith (js ''/'') s \<Longrightarrow> stripSlashes s = s"
  by (cases s) (auto simp: stripSlashes_def startsWith_def)

text \<open>
  C8. A path that starts with none of \<open>a/\<close>, \<open>b/\<close>, \<open>./\<close>, \<open>/\<close> is returned unchanged by the
  normalisation of \<open>safeParseReview\<close> and by the cleaning of \<open>toAbsolutePath\<close>: on an
  already-normalised path both are the identity.
\<close>

theorem normalize_already_normalized:
  "\<not> hasPathPrefix p \<Longrightarrow> normalizeFile p = p \<and> cleanPath p = p"
  by (simp add: hasPathPrefix_def normalizeFile_def cleanPath_def stripPrefix_def
      stripDotSlashes_def stripSlashes_id Let_def)

theorem normalize_already_normalized_witness:
  "\<not> hasPathPrefix (js ''src/x.ts'') \<and> normalizeFile (js ''src/x.ts'') = js ''src/x.ts''
     \<and> cleanPath (js ''src/x.ts'') = js ''src/x.ts''"
  using normalize_already_normalized [of "js ''src/x.ts''"]
  by (simp add: hasPathPrefix_def startsWith_def)

subsection \<open>The spec filter\<close>




lemma firstMatch_Some:
  "firstMatch f s = Some r \<Longrightarrow> \<exists>pre t. s = pre @ t \<and> f t = Some r"
proof (induction s)
  case Nil
  then show ?case by simp
next
  case (Cons c cs)
  show ?case
  proof (cases "f (c # cs)")
    case None
    with Cons.prems have "firstMatch f cs = Some r" by simp
    from Cons.IH [OF this] obtain pre t where "cs = pre @ t" "f t = Some r" by blast
    then have "c # cs = (c # pre) @ t \<and> f t = Some r" by simp
    then show ?thesis by blast
  next
    case (Some a)
    with Cons.prems have "f (c # cs) = Some r" by simp
    then have "c # cs = [] @ (c # cs) \<and> f (c # cs) = Some r" by simp
    then show ?thesis by blast
  qed
qed

lemma firstMatch_append:
  "f t \<noteq> None \<Longrightarrow> firstMatch f (pre @ t) \<noteq> None"
proof (induction pre)
  case Nil
  then show ?case by (cases t) auto
next
  case (Cons c pre)
  then show ?case by (cases "f (c # pre @ t)") auto
qed

lemma startsWithCI_split:
  assumes "startsWithCI p s" "length p = n"
  shows "\<exists>r. s = r @ drop n s \<and> sameLetters p r"
proof (rule exI [of _ "take n s"])
  show "s = take n s @ drop n s \<and> sameLetters p (take n s)"
    using assms unfolding startsWithCI_def sameLetters_def by simp
qed

lemma sameLetters_length: "sameLetters p r \<Longrightarrow> length r = length p"
  unfolding sameLetters_def using length_map [of asciiUpper r] length_map [of asciiUpper p] by simp

lemma startsWithCI_append:
  "sameLetters p r \<Longrightarrow> startsWithCI p (r @ t)"
  using sameLetters_length [of p r] unfolding startsWithCI_def sameLetters_def by simp

lemma list_all_takeWhile: "list_all P (takeWhile P xs)"
  by (induction xs) auto

lemma requireAt_conds:
  assumes "requireAt s = Some ds"
  shows "startsWithCI (js ''require'') s"
    "takeWhile isSpace (drop 7 s) \<noteq> []"
    "takeWhile isDigit (dropWhile isSpace (drop 7 s)) \<noteq> []"
    "takeWhile isSpace (dropWhile isDigit (dropWhile isSpace (drop 7 s))) \<noteq> []"
    "startsWithCI (js ''exclamation'') (dropWhile isSpace (dropWhile isDigit (dropWhile isSpace (drop 7 s))))"
    "startsWithCI (js ''mark'') (dropWhile isSpace (drop 11 (dropWhile isSpace (dropWhile isDigit (dropWhile isSpace (drop 7 s))))))"
    "ds = takeWhile isDigit (dropWhile isSpace (drop 7 s))"
proof -
  have c1: "startsWithCI (js ''require'') s"
  proof (rule ccontr)
    assume "\<not> startsWithCI (js ''require'') s"
    then have "requireAt s = None" unfolding requireAt_def by (simp only: if_False)
    with assms show False by simp
  qed
  then show "startsWithCI (js ''require'') s" .
  have eq: "(let r1 = drop 7 s;
             r2 = dropWhile isSpace r1;
             ds = takeWhile isDigit r2;
             r3 = dropWhile isDigit r2;
             r4 = dropWhile isSpace r3
         in if takeWhile isSpace r1 \<noteq> [] \<and> ds \<noteq> [] \<and> takeWhile isSpace r3 \<noteq> []
              \<and> startsWithCI (js ''exclamation'') r4
              \<and> startsWithCI (js ''mark'') (dropWhile isSpace (drop 11 r4))
            then Some ds else None) = Some ds"
    using assms c1 unfolding requireAt_def by (simp only: if_True)
  show "takeWhile isSpace (drop 7 s) \<noteq> []"
    "takeWhile isDigit (dropWhile isSpace (drop 7 s)) \<noteq> []"
    "takeWhile isSpace (dropWhile isDigit (dropWhile isSpace (drop 7 s))) \<noteq> []"
    "startsWithCI (js ''exclamation'') (dropWhile isSpace (dropWhile isDigit (dropWhile isSpace (drop 7 s))))"
    "startsWithCI (js ''mark'') (dropWhile isSpace (drop 11 (dropWhile isSpace (dropWhile isDigit (dropWhile isSpace (drop 7 s))))))"
    "ds = takeWhile isDigit (dropWhile isSpace (drop 7 s))"
    using eq unfolding Let_def by (metis option.distinct(1) option.inject)+
qed

lemma run_split: "takeWhile P xs \<noteq> [] \<Longrightarrow> \<exists>w. xs = w @ dropWhile P xs \<and> w \<noteq> [] \<and> list_all P w"
  using list_all_takeWhile [of P xs] takeWhile_dropWhile_id [of P xs] by metis

lemma run_split0: "\<exists>w. xs = w @ dropWhile P xs \<and> list_all P w"
  using list_all_takeWhile [of P xs] takeWhile_dropWhile_id [of P xs] by metis

lemma requireAt_Some:
  assumes "requireAt s = Some ds"
  shows "specRuleOccurs (pre @ s)"
proof -
  define r1 where "r1 = drop 7 s"
  define r2 where "r2 = dropWhile isSpace r1"
  define r3 where "r3 = dropWhile isDigit r2"
  define r4 where "r4 = dropWhile isSpace r3"
  define r5 where "r5 = drop 11 r4"
  define r6 where "r6 = dropWhile isSpace r5"
  note c = requireAt_conds [OF assms, folded r1_def, folded r2_def, folded r3_def, folded r4_def,
      folded r5_def, folded r6_def]
  have l7: "length (js ''require'') = 7" and l11: "length (js ''exclamation'') = 11"
    and l4: "length (js ''mark'') = 4" by simp_all
  obtain a where a: "s = a @ r1" "sameLetters (js ''require'') a"
    using startsWithCI_split [OF c(1) l7] unfolding r1_def by blast
  obtain e where e: "r4 = e @ r5" "sameLetters (js ''exclamation'') e"
    using startsWithCI_split [OF c(5) l11] unfolding r5_def by blast
  obtain m post where m: "r6 = m @ post" "sameLetters (js ''mark'') m"
    using startsWithCI_split [OF c(6) l4] by blast
  obtain w1 where w1: "r1 = w1 @ r2" "w1 \<noteq> []" "list_all isSpace w1"
    using run_split [OF c(2)] unfolding r2_def by blast
  obtain d where d: "r2 = d @ r3" "d \<noteq> []" "list_all isDigit d"
    using run_split [OF c(3)] unfolding r3_def by blast
  obtain w2 where w2: "r3 = w2 @ r4" "w2 \<noteq> []" "list_all isSpace w2"
    using run_split [OF c(4)] unfolding r4_def by blast
  obtain w3 where w3: "r5 = w3 @ r6" "list_all isSpace w3"
    using run_split0 [of r5 isSpace] unfolding r6_def by blast
  have eq: "pre @ s = pre @ a @ w1 @ d @ w2 @ e @ w3 @ m @ post"
    by (simp only: a(1) w1(1) d(1) w2(1) e(1) w3(1) m(1))
  have parts: "pre @ s = pre @ a @ w1 @ d @ w2 @ e @ w3 @ m @ post
        \<and> sameLetters (js ''require'') a
        \<and> w1 \<noteq> [] \<and> list_all isSpace w1
        \<and> d \<noteq> [] \<and> list_all isDigit d
        \<and> w2 \<noteq> [] \<and> list_all isSpace w2
        \<and> sameLetters (js ''exclamation'') e
        \<and> list_all isSpace w3
        \<and> sameLetters (js ''mark'') m"
    by (intro conjI) (fact eq a e m w1 d w2 w3)+
  show ?thesis
    unfolding specRuleOccurs_def
    by (rule exI [of _ pre], rule exI [of _ a], rule exI [of _ w1], rule exI [of _ d],
        rule exI [of _ w2], rule exI [of _ e], rule exI [of _ w3], rule exI [of _ m],
        rule exI [of _ post]) (fact parts)
qed

lemma requireMatch_Some_occurs:
  assumes "requireMatch a = Some ds"
  shows "specRuleOccurs a"
proof -
  from assms have "firstMatch requireAt a = Some ds" by (simp only: requireMatch_def)
  from firstMatch_Some [OF this] obtain pre t where pt: "a = pre @ t" "requireAt t = Some ds"
    by blast
  show ?thesis unfolding pt(1) by (rule requireAt_Some [OF pt(2)])
qed

lemma run_take:
  assumes "list_all P w" "t = [] \<or> \<not> P (hd t)"
  shows "takeWhile P (w @ t) = w" "dropWhile P (w @ t) = t"
proof -
  have w: "\<And>x. x \<in> set w \<Longrightarrow> P x" using assms(1) by (simp add: list_all_iff)
  have t: "takeWhile P t = []" "dropWhile P t = t" using assms(2) by (cases t; simp)+
  show "takeWhile P (w @ t) = w" using w t(1) by (simp add: takeWhile_append2)
  show "dropWhile P (w @ t) = t" using w t(2) by (simp add: dropWhile_append2)
qed

lemma sameLetters_hd:
  assumes "sameLetters (p # ps) r"
  shows "r \<noteq> [] \<and> asciiUpper (hd r) = asciiUpper p"
  using assms unfolding sameLetters_def by (cases r) simp_all

lemma upper_not_space: "asciiUpper c = 69 \<or> asciiUpper c = 77 \<Longrightarrow> \<not> isSpace c"
  unfolding asciiUpper_def isSpace_def by (auto split: if_splits)

lemma digit_not_space: "isDigit c \<Longrightarrow> \<not> isSpace c"
  unfolding isDigit_def isSpace_def by auto

lemma space_not_digit: "isSpace c \<Longrightarrow> \<not> isDigit c"
  unfolding isDigit_def isSpace_def by auto

lemma hd_list_all: "xs \<noteq> [] \<Longrightarrow> list_all P xs \<Longrightarrow> P (hd xs)"
  by (cases xs) simp_all

lemma requireAt_complete:
  assumes "sameLetters (js ''require'') a"
    and "w1 \<noteq> []" "list_all isSpace w1"
    and "d \<noteq> []" "list_all isDigit d"
    and "w2 \<noteq> []" "list_all isSpace w2"
    and "sameLetters (js ''exclamation'') e"
    and "list_all isSpace w3"
    and "sameLetters (js ''mark'') m"
  shows "requireAt (a @ w1 @ d @ w2 @ e @ w3 @ m @ post) = Some d"
proof -
  define s where "s = a @ w1 @ d @ w2 @ e @ w3 @ m @ post"
  have la: "length a = 7" using sameLetters_length [OF assms(1)] by simp
  have le: "length e = 11" using sameLetters_length [OF assms(8)] by simp
  have e_hd: "e \<noteq> []" "\<not> isSpace (hd e)"
    using sameLetters_hd [of "cu CHR ''e''" "js ''xclamation''" e] assms(8)
      upper_not_space [of "hd e"] by (simp_all add: asciiUpper_def)
  have m_hd: "m \<noteq> []" "\<not> isSpace (hd m)"
    using sameLetters_hd [of "cu CHR ''m''" "js ''ark''" m] assms(10)
      upper_not_space [of "hd m"] by (simp_all add: asciiUpper_def)
  have d_hd: "\<not> isSpace (hd d)" using hd_list_all [OF assms(4,5)] digit_not_space by blast
  have w2_hd: "\<not> isDigit (hd w2)" using hd_list_all [OF assms(6,7)] space_not_digit by blast
  have c1: "startsWithCI (js ''require'') s"
    unfolding s_def by (rule startsWithCI_append [OF assms(1)])
  have r1: "drop 7 s = w1 @ d @ w2 @ e @ w3 @ m @ post"
    unfolding s_def using la by simp
  have t1: "takeWhile isSpace (w1 @ d @ w2 @ e @ w3 @ m @ post) = w1"
    and r2: "dropWhile isSpace (w1 @ d @ w2 @ e @ w3 @ m @ post) = d @ w2 @ e @ w3 @ m @ post"
    using run_take [OF assms(3), of "d @ w2 @ e @ w3 @ m @ post"] d_hd assms(4) by simp_all
  have t2: "takeWhile isDigit (d @ w2 @ e @ w3 @ m @ post) = d"
    and r3: "dropWhile isDigit (d @ w2 @ e @ w3 @ m @ post) = w2 @ e @ w3 @ m @ post"
    using run_take [OF assms(5), of "w2 @ e @ w3 @ m @ post"] w2_hd assms(6) by simp_all
  have t3: "takeWhile isSpace (w2 @ e @ w3 @ m @ post) = w2"
    and r4: "dropWhile isSpace (w2 @ e @ w3 @ m @ post) = e @ w3 @ m @ post"
    using run_take [OF assms(7), of "e @ w3 @ m @ post"] e_hd by simp_all
  have c5: "startsWithCI (js ''exclamation'') (e @ w3 @ m @ post)"
    by (rule startsWithCI_append [OF assms(8)])
  have r5: "drop 11 (e @ w3 @ m @ post) = w3 @ m @ post" using le by simp
  have r6: "dropWhile isSpace (w3 @ m @ post) = m @ post"
    using run_take [OF assms(9), of "m @ post"] m_hd by simp
  have c6: "startsWithCI (js ''mark'') (m @ post)"
    by (rule startsWithCI_append [OF assms(10)])
  show ?thesis
    unfolding s_def [symmetric] requireAt_def Let_def
    by (simp only: c1 r1 t1 r2 t2 r3 t3 r4 c5 r5 r6 c6 assms(2,4,6) if_True simp_thms)
qed

lemma specRuleOccurs_match:
  assumes "specRuleOccurs a"
  shows "requireMatch a \<noteq> None"
proof -
  from assms obtain pre r w1 ds w2 e w3 m post where
    p: "a = pre @ r @ w1 @ ds @ w2 @ e @ w3 @ m @ post"
      "sameLetters (js ''require'') r"
      "w1 \<noteq> []" "list_all isSpace w1"
      "ds \<noteq> []" "list_all isDigit ds"
      "w2 \<noteq> []" "list_all isSpace w2"
      "sameLetters (js ''exclamation'') e"
      "list_all isSpace w3"
      "sameLetters (js ''mark'') m"
    unfolding specRuleOccurs_def by blast
  have "requireAt (r @ w1 @ ds @ w2 @ e @ w3 @ m @ post) \<noteq> None"
    using requireAt_complete [OF p(2-11), of post] by simp
  from firstMatch_append [of requireAt, OF this, of pre]
  show ?thesis unfolding requireMatch_def p(1) .
qed

lemma specRuleOccurs_iff: "specRuleOccurs a \<longleftrightarrow> requireMatch a \<noteq> None"
  using specRuleOccurs_match [of a] requireMatch_Some_occurs [of a] by (cases "requireMatch a") auto

text \<open>
  C6. When the pattern \<open>require N exclamation mark(s)\<close> does not occur in the acceptance
  text, the spec filter returns the list of issues unchanged, whatever the issues and the
  loaded texts are.
\<close>

theorem spec_filter_identity:
  assumes "\<not> specRuleOccurs acceptance"
  shows "filterIssuesAgainstSpec items acceptance fileTextByPath = Inr items"
proof -
  from assms have "requireMatch acceptance = None" by (simp add: specRuleOccurs_iff)
  then show ?thesis by (simp add: filterIssuesAgainstSpec_def)
qed

theorem spec_filter_identity_witness:
  \<open>\<not> specRuleOccurs (js ''Invalid code shows inline error; no exclamation marks required'')
   \<and> filterIssuesAgainstSpec [Obj [(js ''message'', Str (js ''Missing exclamation mark''))]]
        (js ''Invalid code shows inline error; no exclamation marks required'') Map.empty
      = Inr [Obj [(js ''message'', Str (js ''Missing exclamation mark''))]]\<close>
proof -
  have "requireMatch (js ''Invalid code shows inline error; no exclamation marks required'') = None"
    by code_simp
  then have h: "\<not> specRuleOccurs (js ''Invalid code shows inline error; no exclamation marks required'')"
    by (simp only: specRuleOccurs_iff simp_thms)
  from spec_filter_identity [OF h] h show ?thesis by simp
qed




subsection \<open>The response parser\<close>

lemma lookup_update:
  "lookupProp (updateProp ps k v) k' = (if k' = k then v else lookupProp ps k')"
  by (induction ps) auto

lemma toNumber_jsOr: "toNumber (jsOr (Num n) (Num d)) = numOr n d"
  by (simp add: jsOr_def numOr_def)

lemma numLe_refl: "n \<noteq> NaN \<Longrightarrow> numLe n n"
  by (cases n) simp_all

lemma max_start: "mathMax (Fin 1) (numOr n (Fin 1)) = (if numLe (Fin 1) n then n else Fin 1)"
  by (cases n) (auto simp: mathMax_def numOr_def)

lemma clampLine_ge: "numLe (Fin 1) (clampLine (Fin 1) v)"
  by (simp add: clampLine_def)

lemma numLe_trans: "numLe a b \<Longrightarrow> numLe b c \<Longrightarrow> numLe a c"
  by (cases a; cases b; cases c) simp_all

lemma numLe_not_NaN: "numLe a b \<Longrightarrow> a \<noteq> NaN \<and> b \<noteq> NaN"
  by (cases a; cases b) simp_all

lemma numLe_NaN: "\<not> numLe a NaN"
  by (cases a) simp_all

lemma max_end:
  assumes "numLe (Fin 1) s"
  shows "mathMax s (numOr m s) = (if numLe s m then m else s)"
proof -
  have s: "s \<noteq> NaN" "numLe s s" using assms numLe_not_NaN numLe_refl by blast+
  have z: "\<not> numLe s (Fin 0)"
  proof
    assume "numLe s (Fin 0)"
    with assms have "numLe (Fin 1) (Fin 0)" by (rule numLe_trans)
    then show False by simp
  qed
  show ?thesis
  proof (cases "m = NaN \<or> m = Fin 0")
    case True
    then show ?thesis using s z by (auto simp: mathMax_def numOr_def numLe_NaN)
  next
    case False
    then show ?thesis using s by (simp add: mathMax_def numOr_def)
  qed
qed

lemma toNumberE_Num: "toNumberE (Num n) = Inr n"
  by (simp add: toNumberE_def)

lemma toNumberE_ok: "convertible v \<Longrightarrow> toNumberE v = Inr (toNumber v)"
  by (simp add: toNumberE_def)

lemma toNumberE_jsOr: "toNumberE (jsOr (Num m) (Num s)) = Inr (numOr m s)"
  by (simp add: toNumberE_def jsOr_def numOr_def)

lemma convertible_jsOr: "convertible v \<Longrightarrow> convertible (jsOr v (Str s))"
  by (simp add: jsOr_def)

lemma toStringE_jsOr:
  "toStringE (jsOr v (Str [])) = (if convertible v then Inr (toString (jsOr v (Str []))) else Inl TypeError)"
  by (cases v) (simp_all add: toStringE_def jsOr_def)

lemma stringReceiver_Str: "stringReceiver (Str s) = Inr s"
  by (simp add: stringReceiver_def)

lemma fixIssue_props:
  assumes set: "\<And>k v qs. setProp (mk qs) k v = Inr (mk (updateProp qs k v))"
    and get: "\<And>qs k. getProp (mk qs) k = Inr (lookupProp qs k)"
    and c: "convertible (lookupProp ps (js ''startLine''))"
      "convertible (lookupProp ps (js ''endLine''))" "convertible (lookupProp ps (js ''file''))"
  shows "\<exists>qs. fixIssue (mk ps) = Inr (mk qs)
     \<and> lookupProp qs (js ''startLine'') = Num (clampLine (Fin 1) (lookupProp ps (js ''startLine'')))
     \<and> lookupProp qs (js ''endLine'')
          = Num (clampLine (clampLine (Fin 1) (lookupProp ps (js ''startLine''))) (lookupProp ps (js ''endLine'')))
     \<and> lookupProp qs (js ''severity'')
          = (if lookupProp ps (js ''severity'') \<in> set severities then lookupProp ps (js ''severity'')
             else Str (js ''major''))"
proof -
  define s where "s = clampLine (Fin 1) (lookupProp ps (js ''startLine''))"
  define e where "e = clampLine s (lookupProp ps (js ''endLine''))"
  have n1: "toNumberE (lookupProp ps (js ''startLine'')) = Inr (toNumber (lookupProp ps (js ''startLine'')))"
    using c(1) by (simp add: toNumberE_def)
  have s1: "mathMax (Fin 1) (numOr (toNumber (lookupProp ps (js ''startLine''))) (Fin 1)) = s"
    unfolding s_def clampLine_def max_start ..
  have ge: "numLe (Fin 1) s" unfolding s_def by (rule clampLine_ge)
  define p1 where "p1 = updateProp ps (js ''startLine'') (Num s)"
  have l1: "lookupProp p1 (js ''startLine'') = Num s" "lookupProp p1 (js ''endLine'') = lookupProp ps (js ''endLine'')"
    "lookupProp p1 (js ''severity'') = lookupProp ps (js ''severity'')"
    "lookupProp p1 (js ''file'') = lookupProp ps (js ''file'')"
    unfolding p1_def by (simp_all add: lookup_update)
  have m1: "toNumberE (lookupProp ps (js ''endLine'')) = Inr (toNumber (lookupProp ps (js ''endLine'')))"
    using c(2) by (simp add: toNumberE_def)
  have e1: "mathMax s (numOr (toNumber (lookupProp ps (js ''endLine''))) s) = e"
    unfolding e_def clampLine_def max_end [OF ge] ..
  define p2 where "p2 = updateProp p1 (js ''endLine'') (Num e)"
  have l2: "lookupProp p2 (js ''startLine'') = Num s" "lookupProp p2 (js ''endLine'') = Num e"
    "lookupProp p2 (js ''severity'') = lookupProp ps (js ''severity'')"
    "lookupProp p2 (js ''file'') = lookupProp ps (js ''file'')"
    unfolding p2_def using l1 by (simp_all add: lookup_update)
  define p3 where "p3 = (if lookupProp ps (js ''severity'') \<in> set severities then p2
                          else updateProp p2 (js ''severity'') (Str (js ''major'')))"
  have l3: "lookupProp p3 (js ''startLine'') = Num s" "lookupProp p3 (js ''endLine'') = Num e"
    "lookupProp p3 (js ''severity'') = (if lookupProp ps (js ''severity'') \<in> set severities
        then lookupProp ps (js ''severity'') else Str (js ''major''))"
    "lookupProp p3 (js ''file'') = lookupProp ps (js ''file'')"
    unfolding p3_def using l2 by (simp_all add: lookup_update)
  define f where "f = trim (toString (jsOr (lookupProp ps (js ''file'')) (Str [])))"
  have f1: "toStringE (jsOr (lookupProp ps (js ''file'')) (Str []))
      = Inr (toString (jsOr (lookupProp ps (js ''file'')) (Str [])))"
    using c(3) by (simp add: toStringE_jsOr)
  define p4 where "p4 = updateProp p3 (js ''file'') (Str f)"
  define p5 where "p5 = updateProp p4 (js ''file'') (Str (normalizeFile f))"
  have l5: "lookupProp p5 (js ''startLine'') = Num s" "lookupProp p5 (js ''endLine'') = Num e"
    "lookupProp p5 (js ''severity'') = (if lookupProp ps (js ''severity'') \<in> set severities
        then lookupProp ps (js ''severity'') else Str (js ''major''))"
    unfolding p5_def p4_def using l3 by (simp_all add: lookup_update)
  have sev: "(if lookupProp ps (js ''severity'') \<in> set severities then Inr (mk p2)
        else Inr (mk (updateProp p2 (js ''severity'') (Str (js ''major''))))) = (Inr (mk p3) :: js_error + jsval)"
    unfolding p3_def by simp
  have l4: "lookupProp p4 (js ''file'') = Str f" unfolding p4_def by (simp add: lookup_update)
  have "fixIssue (mk ps) = Inr (mk p5)"
    unfolding fixIssue_def get bindE_def sum.case n1 s1 set p1_def [symmetric]
      l1 m1 toNumberE_Num toNumberE_jsOr e1 p2_def [symmetric] l2 sev l3 f1 f_def [symmetric]
      p4_def [symmetric] l4 stringReceiver_Str p5_def [symmetric] ..
  with l5 show ?thesis unfolding s_def e_def by blast
qed

lemma propOf_simps:
  "propOf (Obj qs) k = lookupProp qs k" "propOf (Arr es qs) k = lookupProp qs k"
  by (simp_all add: propOf_def)

lemma clampLine_le: "lo \<noteq> NaN \<Longrightarrow> numLe lo (clampLine lo v)"
  by (simp add: clampLine_def numLe_refl)

lemma coercedFrom_clamped:
  assumes "coercedFrom it it'"
  shows "clamped it'"
proof -
  let ?s = "clampLine (Fin 1) (propOf it (js ''startLine''))"
  have s: "numLe (Fin 1) ?s" by (rule clampLine_ge)
  then have "?s \<noteq> NaN" using numLe_not_NaN by blast
  then have e: "numLe ?s (clampLine ?s (propOf it (js ''endLine'')))" by (rule clampLine_le)
  have sev: "propOf it' (js ''severity'') \<in> set severities"
  proof (cases "propOf it (js ''severity'') \<in> set severities")
    case True
    then show ?thesis using assms unfolding coercedFrom_def by simp
  next
    case False
    then have "propOf it' (js ''severity'') = Str (js ''major'')"
      using assms unfolding coercedFrom_def by simp
    then show ?thesis by (simp add: severities_def)
  qed
  from assms have "propOf it' (js ''startLine'') = Num ?s"
    "propOf it' (js ''endLine'') = Num (clampLine ?s (propOf it (js ''endLine'')))"
    unfolding coercedFrom_def by blast+
  then show ?thesis unfolding clamped_def using s e sev by simp
qed

lemma fixIssue_object:
  assumes "coercible it"
  shows "\<exists>it'. fixIssue it = Inr it' \<and> coercedFrom it it'"
proof (cases it)
  case (Obj ps)
  from assms have c: "convertible (lookupProp ps (js ''startLine''))"
      "convertible (lookupProp ps (js ''endLine''))" "convertible (lookupProp ps (js ''file''))"
    unfolding coercible_def Obj propOf_simps by blast+
  from fixIssue_props [of Obj ps, OF _ _ c]
  obtain qs where "fixIssue (Obj ps) = Inr (Obj qs)"
     "lookupProp qs (js ''startLine'') = Num (clampLine (Fin 1) (lookupProp ps (js ''startLine'')))"
     "lookupProp qs (js ''endLine'')
          = Num (clampLine (clampLine (Fin 1) (lookupProp ps (js ''startLine''))) (lookupProp ps (js ''endLine'')))"
     "lookupProp qs (js ''severity'')
          = (if lookupProp ps (js ''severity'') \<in> set severities then lookupProp ps (js ''severity'')
             else Str (js ''major''))"
    by auto
  then have "fixIssue it = Inr (Obj qs) \<and> coercedFrom it (Obj qs)"
    unfolding coercedFrom_def Obj propOf_simps by simp
  then show ?thesis by blast
next
  case (Arr es ps)
  from assms have c: "convertible (lookupProp ps (js ''startLine''))"
      "convertible (lookupProp ps (js ''endLine''))" "convertible (lookupProp ps (js ''file''))"
    unfolding coercible_def Arr propOf_simps by blast+
  from fixIssue_props [of "Arr es" ps, OF _ _ c]
  obtain qs where "fixIssue (Arr es ps) = Inr (Arr es qs)"
     "lookupProp qs (js ''startLine'') = Num (clampLine (Fin 1) (lookupProp ps (js ''startLine'')))"
     "lookupProp qs (js ''endLine'')
          = Num (clampLine (clampLine (Fin 1) (lookupProp ps (js ''startLine''))) (lookupProp ps (js ''endLine'')))"
     "lookupProp qs (js ''severity'')
          = (if lookupProp ps (js ''severity'') \<in> set severities then lookupProp ps (js ''severity'')
             else Str (js ''major''))"
    by auto
  then have "fixIssue it = Inr (Arr es qs) \<and> coercedFrom it (Arr es qs)"
    unfolding coercedFrom_def Arr propOf_simps by simp
  then show ?thesis by blast
qed (use assms in \<open>simp_all add: coercible_def\<close>)

lemma fixIssue_primitive: "\<not> isObject it \<Longrightarrow> fixIssue it = Inl TypeError"
  by (cases it) (simp_all add: fixIssue_def bindE_def toNumberE_def)

lemma fixIssue_fail:
  assumes "\<not> coercible it"
  shows "\<exists>err. fixIssue it = Inl err"
proof (cases "isObject it")
  case False
  then show ?thesis by (simp add: fixIssue_primitive)
next
  case True
  then obtain mk ps where mk: "it = mk ps"
      "\<And>k v qs. setProp (mk qs) k v = Inr (mk (updateProp qs k v))"
      "\<And>qs k. getProp (mk qs) k = Inr (lookupProp qs k)"
      "\<And>k. propOf (mk ps) k = lookupProp ps k"
  proof (cases it)
    case (Obj ps)
    show ?thesis by (rule that [of Obj ps]) (simp_all add: Obj propOf_def)
  next
    case (Arr es ps)
    show ?thesis by (rule that [of "Arr es" ps]) (simp_all add: Arr propOf_def)
  qed simp_all
  from assms True have bad: "\<not> convertible (lookupProp ps (js ''startLine''))
      \<or> \<not> convertible (lookupProp ps (js ''endLine''))
      \<or> \<not> convertible (lookupProp ps (js ''file''))"
    unfolding coercible_def mk(1) mk(4) by blast
  show ?thesis
  proof (cases "convertible (lookupProp ps (js ''startLine''))")
    case False
    then show ?thesis unfolding mk(1) fixIssue_def mk(3) by (simp add: bindE_def toNumberE_def)
  next
    case sl: True
    show ?thesis
    proof (cases "convertible (lookupProp ps (js ''endLine''))")
      case False
      then have "toNumberE (lookupProp ps (js ''endLine'')) = Inl TypeError"
        by (simp add: toNumberE_def)
      then show ?thesis unfolding mk(1) fixIssue_def
        using sl by (simp add: bindE_def toNumberE_ok mk(2,3) lookup_update)
    next
      case el: True
      with bad sl have nf: "\<not> convertible (lookupProp ps (js ''file''))" by blast
      then have "toStringE (jsOr (lookupProp ps (js ''file'')) (Str [])) = Inl TypeError"
        by (simp add: toStringE_jsOr)
      then show ?thesis unfolding mk(1) fixIssue_def
        using sl el
        by (simp add: bindE_def toNumberE_ok toNumberE_Num toNumberE_jsOr mk(2,3) lookup_update)
    qed
  qed
qed

lemma mapE_fixIssue_ok:
  "list_all coercible es \<Longrightarrow> \<exists>out. mapE fixIssue es = Inr out \<and> list_all2 coercedFrom es out"
proof (induction es)
  case Nil
  then show ?case by simp
next
  case (Cons x xs)
  then obtain out where out: "mapE fixIssue xs = Inr out" "list_all2 coercedFrom xs out" by auto
  from Cons.prems obtain x' where x': "fixIssue x = Inr x'" "coercedFrom x x'"
    using fixIssue_object [of x] by auto
  have "mapE fixIssue (x # xs) = Inr (x' # out) \<and> list_all2 coercedFrom (x # xs) (x' # out)"
    using out x' by (simp add: bindE_def)
  then show ?case by blast
qed

lemma mapE_fixIssue_fail:
  "\<not> list_all coercible es \<Longrightarrow> \<exists>err. mapE fixIssue es = Inl err"
proof (induction es)
  case Nil
  then show ?case by simp
next
  case (Cons x xs)
  show ?case
  proof (cases "coercible x")
    case True
    with Cons obtain err where "mapE fixIssue xs = Inl err" by auto
    then show ?thesis by (cases "fixIssue x") (simp_all add: bindE_def)
  next
    case False
    from fixIssue_fail [OF this] obtain err where "fixIssue x = Inl err" by blast
    then show ?thesis by (simp add: bindE_def)
  qed
qed

lemma list_all2_clamped: "list_all2 coercedFrom es out \<Longrightarrow> list_all clamped out"
  by (induction rule: list_all2_induct) (simp_all add: coercedFrom_clamped)

lemma getProp_total: "getProp v k = Inr x \<Longrightarrow> \<exists>y. getProp v k' = Inr y"
  by (cases v) simp_all

lemma safeParseReview_fallback:
  "reviewOfJson (jsonStrOf (trim raw)) = Inl err \<Longrightarrow>
   safeParseReview raw = \<lparr> summary = take 800 (trim raw), issues = Arr [] [] \<rparr>"
  by (simp add: safeParseReview_def Let_def)

lemma safeParseReview_ok:
  "reviewOfJson (jsonStrOf (trim raw)) = Inr r \<Longrightarrow> safeParseReview raw = r"
  by (simp add: safeParseReview_def Let_def)

text \<open>
  C3, as amended. When the extracted candidate does not parse as JSON the parser returns,
  without an error, the result whose summary is the first 800 code units of the trimmed
  raw text and whose list of issues is empty.
\<close>

theorem malformed_fallback:
  assumes "JSON_parse (jsonStrOf (trim raw)) = None"
  shows "safeParseReview raw = \<lparr> summary = take 800 (trim raw), issues = Arr [] [] \<rparr>"
proof -
  from assms have "reviewOfJson (jsonStrOf (trim raw)) = Inl SyntaxError"
    by (simp add: reviewOfJson_def)
  then show ?thesis by (rule safeParseReview_fallback)
qed

theorem malformed_fallback_witness:
  \<open>JSON_parse (jsonStrOf (trim (js ''Looks good to me, no issues.''))) = None
   \<and> safeParseReview (js ''Looks good to me, no issues.'')
      = \<lparr> summary = js ''Looks good to me, no issues.'', issues = Arr [] [] \<rparr>\<close>
proof -
  have h: "JSON_parse (jsonStrOf (trim (js ''Looks good to me, no issues.''))) = None"
    by code_simp
  have t: "take 800 (trim (js ''Looks good to me, no issues.'')) = js ''Looks good to me, no issues.''"
    by code_simp
  from malformed_fallback [OF h] h t show ?thesis by simp
qed

text \<open>
  C3 as stated fails on a raw text with white space at an end: the summary is cut from the
  trimmed text, so the leading blank of the raw text is not in it.
\<close>

theorem malformed_fallback_trims:
  \<open>JSON_parse (jsonStrOf (trim (js '' no json here''))) = None
   \<and> summary (safeParseReview (js '' no json here'')) = js ''no json here''
   \<and> take 800 (js '' no json here'') = js '' no json here''
   \<and> summary (safeParseReview (js '' no json here'')) \<noteq> take 800 (js '' no json here'')\<close>
  by code_simp

lemma parsed_issues_shape:
  assumes "JSON_parse (jsonStrOf (trim raw)) = Some parsed"
  shows "\<exists>out ps. issues (safeParseReview raw) = Arr out ps \<and> list_all clamped out
          \<and> (case issuesField parsed of
                None \<Rightarrow> out = []
              | Some es \<Rightarrow>
                  if list_all coercible es \<and> convertible (propOf parsed (js ''summary''))
                  then list_all2 coercedFrom es out else out = [])"
proof (cases "getProp parsed (js ''issues'')")
  case (Inl err)
  then have "reviewOfJson (jsonStrOf (trim raw)) = Inl err"
    using assms by (simp add: reviewOfJson_def bindE_def)
  then have "issues (safeParseReview raw) = Arr [] []"
    by (simp add: safeParseReview_fallback)
  moreover have "issuesField parsed = None" using Inl by (simp add: issuesField_def)
  ultimately show ?thesis by simp
next
  case (Inr pi)
  from getProp_total [OF Inr] obtain sm where sm: "getProp parsed (js ''summary'') = Inr sm"
    by blast
  then have psm: "propOf parsed (js ''summary'') = sm" by (simp add: propOf_def)
  show ?thesis
  proof (cases "\<exists>es ps. pi = Arr es ps")
    case False
    then have "reviewOfJson (jsonStrOf (trim raw))
          = (if convertible sm
             then Inr \<lparr> summary = toString (jsOr sm (Str [])), issues = Arr [] [] \<rparr>
             else Inl TypeError)"
      using assms Inr sm by (cases pi) (simp_all add: reviewOfJson_def bindE_def toStringE_jsOr)
    then have "issues (safeParseReview raw) = Arr [] []"
      by (cases "convertible sm") (simp_all add: safeParseReview_ok safeParseReview_fallback)
    moreover have "issuesField parsed = None"
      using Inr False by (cases pi) (simp_all add: issuesField_def)
    ultimately show ?thesis by simp
  next
    case True
    then obtain es ps where pi: "pi = Arr es ps" by blast
    have field: "issuesField parsed = Some es" using Inr pi by (simp add: issuesField_def)
    show ?thesis
    proof (cases "list_all coercible es")
      case all: True
      from mapE_fixIssue_ok [OF all] obtain out
        where out: "mapE fixIssue es = Inr out" "list_all2 coercedFrom es out" by blast
      have r: "reviewOfJson (jsonStrOf (trim raw))
            = (if convertible sm
               then Inr \<lparr> summary = toString (jsOr sm (Str [])), issues = Arr out ps \<rparr>
               else Inl TypeError)"
        unfolding reviewOfJson_def assms option.case Inr pi jsval.case out(1) bindE_def sum.case sm
          toStringE_jsOr by simp
      show ?thesis
      proof (cases "convertible sm")
        case True
        with r have "issues (safeParseReview raw) = Arr out ps"
          by (simp add: safeParseReview_ok)
        then show ?thesis using field all True psm out(2) list_all2_clamped [OF out(2)] by simp
      next
        case False
        with r have "issues (safeParseReview raw) = Arr [] []"
          by (simp add: safeParseReview_fallback)
        then show ?thesis using field False psm by simp
      qed
    next
      case False
      from mapE_fixIssue_fail [OF False] obtain err where err: "mapE fixIssue es = Inl err"
        by blast
      have "reviewOfJson (jsonStrOf (trim raw)) = Inl err"
        unfolding reviewOfJson_def assms option.case Inr pi jsval.case err bindE_def sum.case ..
      then have "issues (safeParseReview raw) = Arr [] []"
        by (simp add: safeParseReview_fallback)
      then show ?thesis using field False by simp
    qed
  qed
qed

lemma safeParseReview_clamped:
  "\<exists>out ps. issues (safeParseReview raw) = Arr out ps \<and> list_all clamped out"
proof (cases "JSON_parse (jsonStrOf (trim raw))")
  case None
  then have "reviewOfJson (jsonStrOf (trim raw)) = Inl SyntaxError"
    by (simp add: reviewOfJson_def)
  then have "issues (safeParseReview raw) = Arr [] []" by (simp add: safeParseReview_fallback)
  then show ?thesis by simp
next
  case (Some parsed)
  from parsed_issues_shape [OF this] show ?thesis by blast
qed




subsection \<open>Code fences\<close>






































subsection \<open>The review command\<close>

lemma bindR_Inl: "bindR (evs, Inl err) f = (evs, Inl err)"
  by (simp add: bindR_def)

lemma bindR_Inr: "bindR (evs, Inr x) f = (evs @ fst (f x), snd (f x))"
  by (simp add: bindR_def split: prod.splits)

lemma bindR_emit: "bindR (emit e) f = (e # fst (f ()), snd (f ()))"
  by (simp add: emit_def bindR_Inr)

lemma readAcceptance_events:
  "readAcceptance w = (evs, r) \<Longrightarrow> evs = [] \<or> evs = [ShowInputBox]"
  by (auto simp: readAcceptance_def liftR_def bindR_emit returnR_def split: option.splits)

lemma getGitDiff_events:
  "getGitDiff w = (evs, r) \<Longrightarrow> list_all (\<lambda>e. \<exists>cmd. e = Exec cmd) evs"
  by (auto simp: getGitDiff_def bindR_emit throwR_def liftR_def split: if_splits)

lemma review_empty_diff:
  assumes "readAcceptance w = (evs1, Inr acceptance)"
    and "getGitDiff w = (evs2, Inr diff)" and "trim diff = []"
  shows "review w wsRoot =
     ([ProgressReport (js ''Reading acceptance criteria'')] @ evs1
      @ [ProgressReport (js ''Collecting diff (git)'')] @ evs2
      @ [ShowInformationMessage (js ''No local changes (git diff is empty).'')], Inr ())"
  unfolding review_def bindR_emit assms(1) bindR_Inr assms(2) using assms(3)
  by (simp add: emit_def)

text \<open>
  C9. When the diff that the command collects is empty (or holds white space only), the
  command shows the message \<open>No local changes (git diff is empty).\<close> and ends: after the
  reading of the acceptance criteria and the two calls of git nothing else happens. No
  request goes to the network and no error is reported.
\<close>

theorem empty_diff_stops:
  assumes "workspaceFolder w = Some wsRoot"
    and "readAcceptance w = (evs1, Inr acceptance)"
    and "getGitDiff w = (evs2, Inr diff)" and "trim diff = []"
  shows "reviewCommand w =
           [WithProgress (js ''AI Review: running'' @ [8230]),
            ProgressReport (js ''Reading acceptance criteria'')] @ evs1
           @ [ProgressReport (js ''Collecting diff (git)'')] @ evs2
           @ [ShowInformationMessage (js ''No local changes (git diff is empty).'')]
         \<and> list_all (\<lambda>e. \<not> isNetworkRequest e \<and> \<not> isErrorReport e) (reviewCommand w)"
proof -
  have run: "reviewCommand w =
           [WithProgress (js ''AI Review: running'' @ [8230]),
            ProgressReport (js ''Reading acceptance criteria'')] @ evs1
           @ [ProgressReport (js ''Collecting diff (git)'')] @ evs2
           @ [ShowInformationMessage (js ''No local changes (git diff is empty).'')]"
    unfolding reviewCommand_def assms(1) option.case review_empty_diff [OF assms(2,3,4)] by simp
  have e1: "list_all (\<lambda>e. \<not> isNetworkRequest e \<and> \<not> isErrorReport e) evs1"
    using readAcceptance_events [OF assms(2)] by auto
  have e2: "list_all (\<lambda>e. \<not> isNetworkRequest e \<and> \<not> isErrorReport e) evs2"
    using getGitDiff_events [OF assms(3)] by (auto simp: list_all_iff)
  show ?thesis unfolding run using e1 e2 by (simp add: run)
qed

theorem empty_diff_stops_witness:
  "workspaceFolder quietWorld = Some (js ''/ws'')
   \<and> readAcceptance quietWorld = ([], Inr (js ''require 4 exclamation marks''))
   \<and> getGitDiff quietWorld = ([Exec (js ''git --version''), Exec (js ''git diff --no-color'')], Inr [])
   \<and> trim [] = ([] :: jsstring)
   \<and> reviewCommand quietWorld =
        [WithProgress (js ''AI Review: running'' @ [8230]),
         ProgressReport (js ''Reading acceptance criteria''),
         ProgressReport (js ''Collecting diff (git)''),
         Exec (js ''git --version''), Exec (js ''git diff --no-color''),
         ShowInformationMessage (js ''No local changes (git diff is empty).'')]"
proof -
  have h1: "workspaceFolder quietWorld = Some (js ''/ws'')" by (simp add: quietWorld_def)
  have h2: "readAcceptance quietWorld = ([], Inr (js ''require 4 exclamation marks''))"
    by (simp add: quietWorld_def readAcceptance_def liftR_def)
  have h3: "getGitDiff quietWorld
      = ([Exec (js ''git --version''), Exec (js ''git diff --no-color'')], Inr [])"
    by (simp add: quietWorld_def getGitDiff_def bindR_emit liftR_def)
  have h4: "trim [] = ([] :: jsstring)" by (simp add: trim_def)
  from empty_diff_stops [OF h1 h2 h3 h4] h1 h2 h3 h4 show ?thesis by simp
qed

end
